theory Spec2Isabelle
  imports Complex_Main
begin

section \<open>Entities and the comparator\<close>

text \<open>
  The embedding follows \<^verbatim>\<open>libs/ngx-collection/src/lib/collection.service.ts\<close>.
  A value of the entity type \<open>'a\<close> stands for a JavaScript object reference: HOL equality
  on \<open>'a\<close> is \<^verbatim>\<open>===\<close>. The service never mutates an entity, so a reference determines
  the fields the comparator reads. Entities are objects, hence truthy.

  The class \<^verbatim>\<open>Comparator\<close> lives in \<^verbatim>\<open>./comparator\<close>, outside the service; the service
  only calls \<^verbatim>\<open>this.comparator.equal(a, b)\<close> and accepts any object or function in its
  place (\<^verbatim>\<open>setComparator\<close>). The comparator is therefore a parameter. The add step of the tracking sets also hands it a whole array as second
  argument (\<^verbatim>\<open>hasItemIn(item, s.updatingItems)\<close> with \<^verbatim>\<open>item\<close> an array), so the parameter
  has two components: what \<^verbatim>\<open>equal\<close> answers on two entities, and what it answers on an
  entity and an array of entities.
\<close>

record 'a objectsComparator =
  equal_cmp :: "'a \<Rightarrow> 'a \<Rightarrow> bool"
  equal_list :: "'a \<Rightarrow> 'a list \<Rightarrow> bool"

section \<open>Duplicate and upsert engine\<close>

text \<open>\<^verbatim>\<open>has(item, items)\<close>, called without \<^verbatim>\<open>excludeIndex\<close> everywhere in the service.\<close>

definition has ::
  "'a objectsComparator \<Rightarrow> 'a \<Rightarrow> 'a list \<Rightarrow> bool" where
  "has c item its = (List.find (\<lambda>i. equal_cmp c item i) its \<noteq> None)"

definition getItemByPartial ::
  "'a objectsComparator \<Rightarrow> 'a \<Rightarrow> 'a list \<Rightarrow> 'a option" where
  "getItemByPartial c partItem its = List.find (\<lambda>i. equal_cmp c i partItem) its"

text \<open>\<^verbatim>\<open>hasItemIn(item, arr)\<close>: \<^verbatim>\<open>arr.includes(item)\<close> is reference identity.\<close>

definition hasItemIn ::
  "'a objectsComparator \<Rightarrow> 'a \<Rightarrow> 'a list \<Rightarrow> bool" where
  "hasItemIn c item arr = (List.member arr item \<or> list_ex (\<lambda>i. equal_cmp c i item) arr)"

text \<open>
  The loop of \<^verbatim>\<open>upsertOne\<close>: \<open>i\<close> is the index of the head of the remaining suffix,
  \<open>firstIndex\<close> the variable of the source. The result is the pair
  \<open>(firstIndex, duplicateIndex)\<close> at loop exit; the \<^verbatim>\<open>break\<close> is the branch that returns
  at once.
\<close>

fun upsertOne_loop ::
  "'a objectsComparator \<Rightarrow> 'a \<Rightarrow> 'a list \<Rightarrow> nat
   \<Rightarrow> int \<Rightarrow> int \<times> int" where
  "upsertOne_loop c item [] i firstIndex = (firstIndex, - 1)"
| "upsertOne_loop c item (x # xs) i firstIndex =
     (if equal_cmp c item x
      then (if firstIndex < 0 then upsertOne_loop c item xs (Suc i) (int i)
            else (firstIndex, int i))
      else upsertOne_loop c item xs (Suc i) firstIndex)"

datatype 'a upserted = Duplicate | Upserted "'a list"

text \<open>
  \<^verbatim>\<open>upsertOne\<close> writes into the array it is given; every caller hands it a fresh copy
  (\<^verbatim>\<open>items.slice()\<close>). The model returns the array after the call. On \<^verbatim>\<open>'duplicate'\<close> the
  array has not been written.
\<close>

definition upsertOne ::
  "'a objectsComparator \<Rightarrow> 'a \<Rightarrow> 'a list \<Rightarrow> 'a upserted" where
  "upsertOne c item its =
     (case upsertOne_loop c item its 0 (- 1) of (firstIndex, duplicateIndex) \<Rightarrow>
        if firstIndex < 0 then Upserted (its @ [item])
        else if duplicateIndex < 0 then Upserted (its[nat firstIndex := item])
        else Duplicate)"

fun hasDuplicates :: "'a objectsComparator \<Rightarrow> 'a list \<Rightarrow> 'a option" where
  "hasDuplicates c [] = None"
| "hasDuplicates c (x # xs) =
     (case List.find (\<lambda>j. equal_cmp c x j) xs of
        Some j \<Rightarrow> Some j
      | None \<Rightarrow> hasDuplicates c xs)"

text \<open>
  The result of \<^verbatim>\<open>upsertMany\<close>: the merged array, or the object
  \<^verbatim>\<open>{duplicate, preExisting?}\<close>. No path of the source sets \<^verbatim>\<open>preExisting\<close>.
\<close>

datatype 'a upsertedMany = Merged "'a list" | Rejected 'a "bool option"

fun upsertMany_loop ::
  "'a objectsComparator \<Rightarrow> 'a list \<Rightarrow> 'a list
   \<Rightarrow> 'a upsertedMany" where
  "upsertMany_loop c [] toItems = Merged toItems"
| "upsertMany_loop c (x # xs) toItems =
     (case upsertOne c x toItems of
        Duplicate \<Rightarrow> Rejected x None
      | Upserted toItems' \<Rightarrow> upsertMany_loop c xs toItems')"

definition upsertMany ::
  "'a objectsComparator \<Rightarrow> 'a list \<Rightarrow> 'a list
   \<Rightarrow> 'a upsertedMany" where
  "upsertMany c its toItems =
     (case hasDuplicates c its of
        Some d \<Rightarrow> Rejected d None
      | None \<Rightarrow> upsertMany_loop c its toItems)"

text \<open>
  \<^verbatim>\<open>getDuplicates\<close>: the \<^verbatim>\<open>DuplicatesMap\<close> as an association list, keys ascending. The entry
  of index \<open>ii\<close> holds \<open>ii\<close> itself and every later index whose element the comparator
  equates with element \<open>ii\<close>.
\<close>

definition getDuplicates ::
  "'a objectsComparator \<Rightarrow> 'a list
   \<Rightarrow> (nat \<times> (nat \<times> 'a) list) list option" where
  "getDuplicates c its =
     (if length its < 2 then None
      else
        let duplicates =
          concat (map (\<lambda>ii.
            let iDupes = map (\<lambda>ij. (ij, its ! ij))
                  (filter (\<lambda>ij. equal_cmp c (its ! ii) (its ! ij)) [Suc ii ..< length its])
            in if iDupes \<noteq> [] then [(ii, (ii, its ! ii) # iDupes)] else [])
          [0 ..< length its])
        in if duplicates \<noteq> [] then Some duplicates else None)"

section \<open>Values that cross the boundary of the service\<close>

text \<open>
  Responses of delete requests, error values and the configured duplicate sentinel have
  the types \<^verbatim>\<open>unknown\<close> and \<^verbatim>\<open>any\<close>: they are JSON-like values. A \<^verbatim>\<open>number\<close> is modelled
  by an exact rational; \<^verbatim>\<open>NaN\<close>, the infinities and the rounding of doubles beyond
  \<^verbatim>\<open>Number.MAX_SAFE_INTEGER\<close> are outside the model.
\<close>

datatype json =
    JNull
  | JUndefined
  | JBool bool
  | JNumber rat
  | JString string
  | JObject "(string \<times> json) list"
  | JArray "json list"

text \<open>What can be thrown or passed to \<^verbatim>\<open>onError\<close>: a value, \<^verbatim>\<open>new Error(message)\<close>, the
  \<^verbatim>\<open>EmptyError\<close> of \<^verbatim>\<open>first()\<close>, or a \<^verbatim>\<open>TypeError\<close> of the runtime.\<close>

datatype errv = ErrValue json | ErrorMsg string | EmptyError | TypeError

text \<open>\<^verbatim>\<open>FetchedItems<T> | T[]\<close>: a bare array, or \<^verbatim>\<open>{items, totalCount?}\<close>.\<close>

datatype 'a fetched = Bare "'a list" | FetchedItems "'a list" "rat option"

fun fetched_items :: "'a fetched \<Rightarrow> 'a list" where
  "fetched_items (Bare xs) = xs"
| "fetched_items (FetchedItems xs tc) = xs"

text \<open>\<^verbatim>\<open>Partial<T> | Partial<T>[]\<close>, the argument of the tracking-set helpers.\<close>

datatype 'a itemOrItems = One 'a | Many "'a list"

text \<open>
  User code is outside the model: a callback is recorded in a trace when it is invoked,
  together with whether it returns or throws. \<open>Bound a b\<close> is the closure
  \<^verbatim>\<open>() => params.onSuccess?.(response)\<close> that \<^verbatim>\<open>delete\<close> and \<^verbatim>\<open>deleteMany\<close> hand to \<^verbatim>\<open>read\<close>: it
  ignores its parameter and passes \<open>a\<close> on. Callbacks are assumed not to call back into
  the service.
\<close>

datatype behaviour = Returns | Throws json

datatype 'a arg =
    ArgItem 'a
  | ArgItems "'a list"
  | ArgResponse json
  | ArgResponses "json list"
  | ArgError errv

datatype 'a callback = Callback behaviour | Bound "'a arg" behaviour

datatype hook = OnSuccess | OnError

datatype channel = ChCreate | ChRead | ChUpdate | ChDelete

datatype 'a report =
    DuplicateNotAdded 'a "'a list"
  | DuplicatesFound "(nat \<times> (nat \<times> 'a) list) list"
  | Caught json

datatype 'a event =
    Called hook "'a arg"
  | Emitted channel "'a list"
  | Reported "'a report"

section \<open>The service and its state\<close>

text \<open>
  The fields of \<^verbatim>\<open>CollectionService\<close> besides the store. \<open>observed ch\<close> is
  \<^verbatim>\<open>this.onCreate.observed\<close> and its three siblings. \<open>tapResponseForwardsThrown\<close> is a fact
  about \<^verbatim>\<open>tapResponse\<close> of \<^verbatim>\<open>@ngrx/component-store\<close>, a dependency: whether an exception
  thrown by its first callback reaches its second callback; it swallows the exception
  either way.
\<close>

record 'a service =
  comparator :: "'a objectsComparator"
  throwOnDuplicates :: "string option"
  allowFetchedDuplicates :: bool
  onDuplicateErrCallbackParam :: json
  errReporter :: "behaviour option"
  observed :: "channel \<Rightarrow> bool"
  tapResponseForwardsThrown :: bool

text \<open>The parameter interfaces. A request is not a value of the model: its outcome is an
  argument of the function that settles the operation. \<open>refreshRequest\<close> and
  \<open>readRequest\<close> say whether the optional second request is present.\<close>

record 'a Callbacks =
  onSuccess :: "'a callback option"
  onError :: "'a callback option"

record 'a ReadParams = "'a Callbacks" +
  keepExistingOnError :: bool

datatype decrement = DBool bool | DNumber rat | DString string

record 'a ItemParams = "'a Callbacks" +
  item :: 'a

record 'a UpdateParams = "'a ItemParams" +
  refreshRequest :: bool

record 'a DeleteParams = "'a ItemParams" +
  decrementTotalCount :: "decrement option"
  readRequest :: bool

record 'a ItemsParams = "'a Callbacks" +
  items :: "'a list"

record 'a UpdateManyParams = "'a ItemsParams" +
  refreshRequest :: bool

record 'a DeleteManyParams = "'a ItemsParams" +
  decrementTotalCount :: "decrement option"
  readRequest :: bool

record ('a, 'u, 't) CollectionState =
  items :: "'a list"
  totalCountFetched :: "rat option"
  isCreating :: bool
  isReading :: bool
  updatingItems :: "'a list"
  deletingItems :: "'a list"
  refreshingItems :: "'a list"
  status :: "'u \<rightharpoonup> 'a"
  statuses :: "'a \<rightharpoonup> 't set"

text \<open>The state the constructor passes to \<^verbatim>\<open>super\<close>.\<close>

definition initialState :: "('a, 'u, 't) CollectionState" where
  "initialState =
     \<lparr>items = [], totalCountFetched = None, isCreating = False, isReading = False,
      updatingItems = [], deletingItems = [], refreshingItems = [],
      status = Map.empty, statuses = Map.empty\<rparr>"

section \<open>Callbacks and diagnostics\<close>

definition callErrReporter :: "'a service \<Rightarrow> 'a report \<Rightarrow> 'a event list" where
  "callErrReporter svc r = (case errReporter svc of None \<Rightarrow> [] | Some b \<Rightarrow> [Reported r])"

fun after_call :: "'a service \<Rightarrow> behaviour \<Rightarrow> 'a event list" where
  "after_call svc Returns = []"
| "after_call svc (Throws e) = callErrReporter svc (Caught e)"

fun callCb ::
  "'a service \<Rightarrow> hook \<Rightarrow> 'a callback option \<Rightarrow> 'a arg
   \<Rightarrow> 'a event list" where
  "callCb svc h None param = []"
| "callCb svc h (Some (Callback b)) param = Called h param # after_call svc b"
| "callCb svc h (Some (Bound a b)) param = Called h a # after_call svc b"

definition emit ::
  "'a service \<Rightarrow> channel \<Rightarrow> 'a list \<Rightarrow> 'a event list" where
  "emit svc ch xs = (if observed svc ch then [Emitted ch xs] else [])"

text \<open>
  \<^verbatim>\<open>duplicateNotAdded\<close> returns the diagnostics it produced and the exception it raised, if
  any: \<^verbatim>\<open>new Error(this.throwOnDuplicates)\<close> when that string is truthy, or whatever
  \<^verbatim>\<open>errReporter\<close> throws (it is called unguarded here).
\<close>

definition duplicateNotAdded ::
  "'a service \<Rightarrow> 'a \<Rightarrow> 'a list
   \<Rightarrow> 'a event list \<times> errv option" where
  "duplicateNotAdded svc it its =
     (case (case throwOnDuplicates svc of None \<Rightarrow> None
            | Some msg \<Rightarrow> if msg \<noteq> [] then Some msg else None) of
        Some msg \<Rightarrow> ([], Some (ErrorMsg msg))
      | None \<Rightarrow>
          (case errReporter svc of
             None \<Rightarrow> ([], None)
           | Some (Throws e) \<Rightarrow> ([Reported (DuplicateNotAdded it its)], Some (ErrValue e))
           | Some Returns \<Rightarrow>
               (Reported (DuplicateNotAdded it its) #
                  (case getDuplicates (comparator svc) its of
                     None \<Rightarrow> []
                   | Some d \<Rightarrow> [Reported (DuplicatesFound d)]),
                None)))"

section \<open>Mutation tracking sets\<close>

text \<open>
  The three \<^verbatim>\<open>addTo...Items\<close> share one body and so do the three \<^verbatim>\<open>removeFrom...Items\<close>;
  \<open>add_tracking\<close> and \<open>remove_tracking\<close> are that body on the array of the set.
  \<^verbatim>\<open>hasItemIn(item, s.updatingItems)\<close> receives \<^verbatim>\<open>item\<close> as it came: for an array the
  comparator is asked about each member and the whole array (\<^verbatim>\<open>includes\<close> finds no array
  among entities).
\<close>

definition resolve ::
  "'a objectsComparator \<Rightarrow> 'a list \<Rightarrow> 'a \<Rightarrow> 'a" where
  "resolve c its i = (case getItemByPartial c i its of Some full \<Rightarrow> full | None \<Rightarrow> i)"

fun add_tracking ::
  "'a objectsComparator \<Rightarrow> 'a itemOrItems \<Rightarrow> 'a list \<Rightarrow> 'a list
   \<Rightarrow> 'a list" where
  "add_tracking c (Many xs) its tracked =
     (if list_ex (\<lambda>i. equal_list c i xs) tracked then tracked
      else tracked @ map (resolve c its) xs)"
| "add_tracking c (One x) its tracked =
     (if hasItemIn c x tracked then tracked else tracked @ [resolve c its x])"

fun remove_tracking ::
  "'a objectsComparator \<Rightarrow> 'a itemOrItems \<Rightarrow> 'a list
   \<Rightarrow> 'a list" where
  "remove_tracking c (Many xs) tracked = filter (\<lambda>i. \<not> has c i xs) tracked"
| "remove_tracking c (One x) tracked = filter (\<lambda>i. \<not> equal_cmp c i x) tracked"

definition addToUpdatingItems ::
  "'a service \<Rightarrow> 'a itemOrItems \<Rightarrow> ('a, 'u, 't) CollectionState
   \<Rightarrow> ('a, 'u, 't) CollectionState" where
  "addToUpdatingItems svc x s =
     s\<lparr>updatingItems := add_tracking (comparator svc) x (items s) (updatingItems s)\<rparr>"

definition removeFromUpdatingItems ::
  "'a service \<Rightarrow> 'a itemOrItems \<Rightarrow> ('a, 'u, 't) CollectionState
   \<Rightarrow> ('a, 'u, 't) CollectionState" where
  "removeFromUpdatingItems svc x s =
     s\<lparr>updatingItems := remove_tracking (comparator svc) x (updatingItems s)\<rparr>"

definition addToDeletingItems ::
  "'a service \<Rightarrow> 'a itemOrItems \<Rightarrow> ('a, 'u, 't) CollectionState
   \<Rightarrow> ('a, 'u, 't) CollectionState" where
  "addToDeletingItems svc x s =
     s\<lparr>deletingItems := add_tracking (comparator svc) x (items s) (deletingItems s)\<rparr>"

definition removeFromDeletingItems ::
  "'a service \<Rightarrow> 'a itemOrItems \<Rightarrow> ('a, 'u, 't) CollectionState
   \<Rightarrow> ('a, 'u, 't) CollectionState" where
  "removeFromDeletingItems svc x s =
     s\<lparr>deletingItems := remove_tracking (comparator svc) x (deletingItems s)\<rparr>"

definition addToRefreshingItems ::
  "'a service \<Rightarrow> 'a itemOrItems \<Rightarrow> ('a, 'u, 't) CollectionState
   \<Rightarrow> ('a, 'u, 't) CollectionState" where
  "addToRefreshingItems svc x s =
     s\<lparr>refreshingItems := add_tracking (comparator svc) x (items s) (refreshingItems s)\<rparr>"

definition removeFromRefreshingItems ::
  "'a service \<Rightarrow> 'a itemOrItems \<Rightarrow> ('a, 'u, 't) CollectionState
   \<Rightarrow> ('a, 'u, 't) CollectionState" where
  "removeFromRefreshingItems svc x s =
     s\<lparr>refreshingItems := remove_tracking (comparator svc) x (refreshingItems s)\<rparr>"

section \<open>The protocol of an operation\<close>

text \<open>
  An operation has a synchronous part, run when the method is called, and a part run when
  the subscription to its request settles. Other operations may run in between, so the
  second part takes the state of that later moment (\<^verbatim>\<open>concatLatestFrom\<close>, \<^verbatim>\<open>first()\<close> on
  \<^verbatim>\<open>items$\<close>). The request settles in one of four ways: it emits a first value, it fails,
  it completes without a value (\<^verbatim>\<open>first()\<close> turns that into \<^verbatim>\<open>EmptyError\<close>), or the
  subscriber unsubscribes before any of these.
\<close>

datatype 'v outcome = Emits 'v | Fails json | Completes | Unsubscribed

text \<open>What the returned observable hands to its subscriber: the value, nothing, nothing
  yet (the second request of \<^verbatim>\<open>update\<close> or \<^verbatim>\<open>delete\<close> is in flight), or an error.\<close>

datatype 'v delivery = Delivers 'v | Silent | Pending | Raises errv

record ('a, 'u, 't, 'v) settled =
  after :: "('a, 'u, 't) CollectionState"
  trace :: "'a event list"
  delivered :: "'v delivery"

text \<open>
  \<^verbatim>\<open>request.pipe(finalize(fin), first(), concatLatestFrom(...), tapResponse(nextFn, errorFn), map(([r]) => r))\<close>.
  The callbacks run first, \<^verbatim>\<open>finalize\<close> runs when the subscription is torn down. An
  exception of \<open>nextFn\<close> never leaves \<^verbatim>\<open>tapResponse\<close>.
\<close>

definition pipe_tapResponse ::
  "'a service
   \<Rightarrow> ('v \<Rightarrow> ('a, 'u, 't) CollectionState \<Rightarrow> ('a, 'u, 't) CollectionState \<times> 'a event list \<times> errv option)
   \<Rightarrow> (errv \<Rightarrow> ('a, 'u, 't) CollectionState \<Rightarrow> ('a, 'u, 't) CollectionState \<times> 'a event list)
   \<Rightarrow> (('a, 'u, 't) CollectionState \<Rightarrow> ('a, 'u, 't) CollectionState)
   \<Rightarrow> 'v outcome \<Rightarrow> ('a, 'u, 't) CollectionState \<Rightarrow> ('a, 'u, 't, 'v) settled" where
  "pipe_tapResponse svc nextFn errorFn fin out s =
     (case out of
        Emits v \<Rightarrow>
          (case nextFn v s of
             (s1, t1, None) \<Rightarrow> \<lparr>after = fin s1, trace = t1, delivered = Delivers v\<rparr>
           | (s1, t1, Some ex) \<Rightarrow>
               if tapResponseForwardsThrown svc
               then (case errorFn ex s1 of
                       (s2, t2) \<Rightarrow> \<lparr>after = fin s2, trace = t1 @ t2, delivered = Silent\<rparr>)
               else \<lparr>after = fin s1, trace = t1, delivered = Silent\<rparr>)
      | Fails err \<Rightarrow>
          (case errorFn (ErrValue err) s of
             (s2, t2) \<Rightarrow> \<lparr>after = fin s2, trace = t2, delivered = Silent\<rparr>)
      | Completes \<Rightarrow>
          (case errorFn EmptyError s of
             (s2, t2) \<Rightarrow> \<lparr>after = fin s2, trace = t2, delivered = Silent\<rparr>)
      | Unsubscribed \<Rightarrow> \<lparr>after = fin s, trace = [], delivered = Silent\<rparr>)"

text \<open>
  \<^verbatim>\<open>request.pipe(finalize(fin), first(), switchMap(inner), catchError(e => { callCb(onError, e); return EMPTY; }))\<close>.
  \<open>inner\<close> returns the state, the trace, the exception it raised if any, and what it
  delivers otherwise.
\<close>

definition pipe_switchMap ::
  "'a service \<Rightarrow> 'a callback option
   \<Rightarrow> ('v \<Rightarrow> ('a, 'u, 't) CollectionState
        \<Rightarrow> ('a, 'u, 't) CollectionState \<times> 'a event list \<times> errv option \<times> 'w delivery)
   \<Rightarrow> (('a, 'u, 't) CollectionState \<Rightarrow> ('a, 'u, 't) CollectionState)
   \<Rightarrow> 'v outcome \<Rightarrow> ('a, 'u, 't) CollectionState \<Rightarrow> ('a, 'u, 't, 'w) settled" where
  "pipe_switchMap svc onErr inner fin out s =
     (case out of
        Emits v \<Rightarrow>
          (case inner v s of
             (s1, t1, None, d) \<Rightarrow> \<lparr>after = fin s1, trace = t1, delivered = d\<rparr>
           | (s1, t1, Some ex, d) \<Rightarrow>
               \<lparr>after = fin s1, trace = t1 @ callCb svc OnError onErr (ArgError ex),
                delivered = Silent\<rparr>)
      | Fails err \<Rightarrow>
          \<lparr>after = fin s, trace = callCb svc OnError onErr (ArgError (ErrValue err)),
           delivered = Silent\<rparr>
      | Completes \<Rightarrow>
          \<lparr>after = fin s, trace = callCb svc OnError onErr (ArgError EmptyError),
           delivered = Silent\<rparr>
      | Unsubscribed \<Rightarrow> \<lparr>after = fin s, trace = [], delivered = Silent\<rparr>)"

text \<open>The pair \<^verbatim>\<open>this.duplicateNotAdded(d, ctx); this.callCb(params.onError, this.onDuplicateErrCallbackParam);\<close>
  that every operation runs on a duplicate conflict.\<close>

definition rejectDuplicate ::
  "'a service \<Rightarrow> 'a callback option \<Rightarrow> 'a \<Rightarrow> 'a list
   \<Rightarrow> 'a event list \<times> errv option" where
  "rejectDuplicate svc onErr d ctx =
     (case duplicateNotAdded svc d ctx of
        (t, Some ex) \<Rightarrow> (t, Some ex)
      | (t, None) \<Rightarrow>
          (t @ callCb svc OnError onErr (ArgError (ErrValue (onDuplicateErrCallbackParam svc))),
           None))"

text \<open>\<^verbatim>\<open>(error) => this.callCb(params.onError, error)\<close>\<close>

definition report_error ::
  "'a service \<Rightarrow> 'a callback option \<Rightarrow> errv \<Rightarrow> ('a, 'u, 't) CollectionState
   \<Rightarrow> ('a, 'u, 't) CollectionState \<times> 'a event list" where
  "report_error svc onErr ex s = (s, callCb svc OnError onErr (ArgError ex))"

section \<open>create, createMany\<close>

definition create_call ::
  "('a, 'u, 't) CollectionState \<Rightarrow> ('a, 'u, 't) CollectionState" where
  "create_call s = s\<lparr>isCreating := True\<rparr>"

definition create_next ::
  "'a service \<Rightarrow> 'a Callbacks \<Rightarrow> 'a option
   \<Rightarrow> ('a, 'u, 't) CollectionState
   \<Rightarrow> ('a, 'u, 't) CollectionState \<times> 'a event list \<times> errv option" where
  "create_next svc p v s =
     (case v of
        None \<Rightarrow> (s, [], None)
      | Some n \<Rightarrow>
          if \<not> hasItemIn (comparator svc) n (items s)
          then (s\<lparr>items := items s @ [n]\<rparr>,
                callCb svc OnSuccess (onSuccess p) (ArgItem n) @ emit svc ChCreate [n],
                None)
          else (case rejectDuplicate svc (onError p) n (items s) of (t, ex) \<Rightarrow> (s, t, ex)))"

definition create_settled ::
  "'a service \<Rightarrow> 'a Callbacks \<Rightarrow> 'a option outcome
   \<Rightarrow> ('a, 'u, 't) CollectionState
   \<Rightarrow> ('a, 'u, 't, 'a option) settled" where
  "create_settled svc p out s =
     pipe_tapResponse svc (create_next svc p) (report_error svc (onError p))
       (\<lambda>s. s\<lparr>isCreating := False\<rparr>) out s"

definition createMany_call ::
  "('a, 'u, 't) CollectionState \<Rightarrow> ('a, 'u, 't) CollectionState" where
  "createMany_call s = s\<lparr>isCreating := True\<rparr>"

definition createMany_next ::
  "'a service \<Rightarrow> 'a Callbacks \<Rightarrow> 'a fetched option
   \<Rightarrow> ('a, 'u, 't) CollectionState
   \<Rightarrow> ('a, 'u, 't) CollectionState \<times> 'a event list \<times> errv option" where
  "createMany_next svc p v s =
     (case v of
        None \<Rightarrow> (s, [], None)
      | Some f \<Rightarrow>
          let fetchedItems = fetched_items f in
          if fetchedItems \<noteq> []
          then (case upsertMany (comparator svc) fetchedItems (items s) of
                  Rejected d pre \<Rightarrow>
                    (case rejectDuplicate svc (onError p) d
                            (if pre = Some True then fetchedItems else items s) of
                       (t, ex) \<Rightarrow> (s, t, ex))
                | Merged newItems \<Rightarrow>
                    (s\<lparr>items := items s @ fetchedItems,
                       totalCountFetched :=
                         (case f of Bare xs \<Rightarrow> totalCountFetched s | FetchedItems xs tc \<Rightarrow> tc)\<rparr>,
                     callCb svc OnSuccess (onSuccess p) (ArgItems fetchedItems)
                       @ emit svc ChCreate fetchedItems,
                     None))
          else (case f of
                  FetchedItems xs (Some tc) \<Rightarrow> (s\<lparr>totalCountFetched := Some tc\<rparr>, [], None)
                | _ \<Rightarrow> (s, [], None)))"

definition createMany_settled ::
  "'a service \<Rightarrow> 'a Callbacks \<Rightarrow> 'a fetched option outcome \<Rightarrow> ('a, 'u, 't) CollectionState
   \<Rightarrow> ('a, 'u, 't, 'a fetched option) settled" where
  "createMany_settled svc p out s =
     pipe_tapResponse svc (createMany_next svc p) (report_error svc (onError p))
       (\<lambda>s. s\<lparr>isCreating := False\<rparr>) out s"

section \<open>read, readOne, readMany\<close>

definition read_call ::
  "('a, 'u, 't) CollectionState \<Rightarrow> ('a, 'u, 't) CollectionState" where
  "read_call s = s\<lparr>isReading := True\<rparr>"

text \<open>The tail of the first callback of \<^verbatim>\<open>read\<close>, from \<^verbatim>\<open>this.patchState({items, ...})\<close> on.
  With \<^verbatim>\<open>fetched == null\<close> the object literal reads \<^verbatim>\<open>fetched.totalCount\<close> and the runtime
  throws before \<^verbatim>\<open>patchState\<close> is entered.\<close>

definition read_commit ::
  "'a service \<Rightarrow> 'a ReadParams \<Rightarrow> 'a fetched option \<Rightarrow> 'a event list \<Rightarrow> ('a, 'u, 't) CollectionState
   \<Rightarrow> ('a, 'u, 't) CollectionState \<times> 'a event list \<times> errv option" where
  "read_commit svc p v t s =
     (case v of
        None \<Rightarrow> (s, t, Some TypeError)
      | Some f \<Rightarrow>
          (s\<lparr>items := fetched_items f,
             totalCountFetched := (case f of Bare xs \<Rightarrow> None | FetchedItems xs tc \<Rightarrow> tc)\<rparr>,
           t @ callCb svc OnSuccess (onSuccess p) (ArgItems (fetched_items f))
             @ emit svc ChRead (fetched_items f),
           None))"

definition read_next ::
  "'a service \<Rightarrow> 'a ReadParams \<Rightarrow> 'a fetched option
   \<Rightarrow> ('a, 'u, 't) CollectionState
   \<Rightarrow> ('a, 'u, 't) CollectionState \<times> 'a event list \<times> errv option" where
  "read_next svc p v s =
     (let its = (case v of None \<Rightarrow> [] | Some f \<Rightarrow> fetched_items f) in
      case (if its \<noteq> [] then hasDuplicates (comparator svc) its else None) of
        None \<Rightarrow> read_commit svc p v [] s
      | Some d \<Rightarrow>
          (case duplicateNotAdded svc d its of
             (t, Some ex) \<Rightarrow> (s, t, Some ex)
           | (t, None) \<Rightarrow>
               if \<not> allowFetchedDuplicates svc
               then ((if \<not> keepExistingOnError p
                      then s\<lparr>items := [], totalCountFetched := None\<rparr> else s),
                     t @ callCb svc OnError (onError p)
                           (ArgError (ErrValue (onDuplicateErrCallbackParam svc))),
                     None)
               else read_commit svc p v t s))"

definition read_error ::
  "'a service \<Rightarrow> 'a ReadParams \<Rightarrow> errv
   \<Rightarrow> ('a, 'u, 't) CollectionState
   \<Rightarrow> ('a, 'u, 't) CollectionState \<times> 'a event list" where
  "read_error svc p ex s =
     ((if \<not> keepExistingOnError p then s\<lparr>items := [], totalCountFetched := None\<rparr> else s),
      callCb svc OnError (onError p) (ArgError ex))"

definition read_settled ::
  "'a service \<Rightarrow> 'a ReadParams \<Rightarrow> 'a fetched option outcome \<Rightarrow> ('a, 'u, 't) CollectionState
   \<Rightarrow> ('a, 'u, 't, 'a fetched option) settled" where
  "read_settled svc p out s =
     pipe_tapResponse svc (read_next svc p) (read_error svc p)
       (\<lambda>s. s\<lparr>isReading := False\<rparr>) out s"

definition readOne_call ::
  "('a, 'u, 't) CollectionState \<Rightarrow> ('a, 'u, 't) CollectionState" where
  "readOne_call s = s\<lparr>isReading := True\<rparr>"

definition readOne_next ::
  "'a service \<Rightarrow> 'a Callbacks \<Rightarrow> 'a option
   \<Rightarrow> ('a, 'u, 't) CollectionState
   \<Rightarrow> ('a, 'u, 't) CollectionState \<times> 'a event list \<times> errv option" where
  "readOne_next svc p v s =
     (case v of
        None \<Rightarrow> (s, [], None)
      | Some n \<Rightarrow>
          (case upsertOne (comparator svc) n (items s) of
             Duplicate \<Rightarrow>
               (case rejectDuplicate svc (onError p) n (items s) of (t, ex) \<Rightarrow> (s, t, ex))
           | Upserted newItems \<Rightarrow>
               (s\<lparr>items := newItems\<rparr>,
                callCb svc OnSuccess (onSuccess p) (ArgItem n) @ emit svc ChRead [n],
                None)))"

definition readOne_settled ::
  "'a service \<Rightarrow> 'a Callbacks \<Rightarrow> 'a option outcome
   \<Rightarrow> ('a, 'u, 't) CollectionState
   \<Rightarrow> ('a, 'u, 't, 'a option) settled" where
  "readOne_settled svc p out s =
     pipe_tapResponse svc (readOne_next svc p) (report_error svc (onError p))
       (\<lambda>s. s\<lparr>isReading := False\<rparr>) out s"

definition readMany_call ::
  "('a, 'u, 't) CollectionState \<Rightarrow> ('a, 'u, 't) CollectionState" where
  "readMany_call s = s\<lparr>isReading := True\<rparr>"

definition readMany_next ::
  "'a service \<Rightarrow> 'a Callbacks \<Rightarrow> 'a fetched option
   \<Rightarrow> ('a, 'u, 't) CollectionState
   \<Rightarrow> ('a, 'u, 't) CollectionState \<times> 'a event list \<times> errv option" where
  "readMany_next svc p v s =
     (let readItems = (case v of None \<Rightarrow> [] | Some f \<Rightarrow> fetched_items f) in
      if readItems \<noteq> []
      then (case upsertMany (comparator svc) readItems (items s) of
              Rejected d pre \<Rightarrow>
                (case rejectDuplicate svc (onError p) d
                        (if pre = Some True then readItems else items s) of
                   (t, ex) \<Rightarrow> (s, t, ex))
            | Merged newItems \<Rightarrow>
                (s\<lparr>items := newItems,
                   totalCountFetched :=
                     (case v of Some (FetchedItems xs tc) \<Rightarrow> tc | _ \<Rightarrow> totalCountFetched s)\<rparr>,
                 callCb svc OnSuccess (onSuccess p) (ArgItems newItems) @ emit svc ChRead readItems,
                 None))
      else (case v of
              None \<Rightarrow> (s, [], Some TypeError)
            | Some (FetchedItems xs (Some tc)) \<Rightarrow> (s\<lparr>totalCountFetched := Some tc\<rparr>, [], None)
            | _ \<Rightarrow> (s, [], None)))"

definition readMany_settled ::
  "'a service \<Rightarrow> 'a Callbacks \<Rightarrow> 'a fetched option outcome \<Rightarrow> ('a, 'u, 't) CollectionState
   \<Rightarrow> ('a, 'u, 't, 'a fetched option) settled" where
  "readMany_settled svc p out s =
     pipe_tapResponse svc (readMany_next svc p) (report_error svc (onError p))
       (\<lambda>s. s\<lparr>isReading := False\<rparr>) out s"

section \<open>refresh, refreshMany\<close>

definition refresh_call ::
  "'a service \<Rightarrow> 'a ItemParams \<Rightarrow> ('a, 'u, 't) CollectionState
   \<Rightarrow> ('a, 'u, 't) CollectionState" where
  "refresh_call svc p s = addToRefreshingItems svc (One (item p)) s"

definition refresh_next ::
  "'a service \<Rightarrow> 'a ItemParams \<Rightarrow> 'a option
   \<Rightarrow> ('a, 'u, 't) CollectionState
   \<Rightarrow> ('a, 'u, 't) CollectionState \<times> 'a event list \<times> errv option" where
  "refresh_next svc p v s =
     (case v of
        None \<Rightarrow> (s, [], None)
      | Some n \<Rightarrow>
          (case upsertOne (comparator svc) n (items s) of
             Duplicate \<Rightarrow>
               (case rejectDuplicate svc (onError p) n (items s) of (t, ex) \<Rightarrow> (s, t, ex))
           | Upserted newItems \<Rightarrow>
               (s\<lparr>items := newItems\<rparr>,
                callCb svc OnSuccess (onSuccess p) (ArgItem n) @ emit svc ChRead [n],
                None)))"

definition refresh_settled ::
  "'a service \<Rightarrow> 'a ItemParams \<Rightarrow> 'a option outcome
   \<Rightarrow> ('a, 'u, 't) CollectionState
   \<Rightarrow> ('a, 'u, 't, 'a option) settled" where
  "refresh_settled svc p out s =
     pipe_tapResponse svc (refresh_next svc p) (report_error svc (onError p))
       (removeFromRefreshingItems svc (One (item p))) out s"

definition refreshMany_call ::
  "'a service \<Rightarrow> 'a ItemsParams \<Rightarrow> ('a, 'u, 't) CollectionState
   \<Rightarrow> ('a, 'u, 't) CollectionState" where
  "refreshMany_call svc p s = addToRefreshingItems svc (Many (ItemsParams.items p)) s"

definition refreshMany_next ::
  "'a service \<Rightarrow> 'a ItemsParams \<Rightarrow> 'a fetched option
   \<Rightarrow> ('a, 'u, 't) CollectionState
   \<Rightarrow> ('a, 'u, 't) CollectionState \<times> 'a event list \<times> errv option" where
  "refreshMany_next svc p v s =
     (case v of
        None \<Rightarrow> (s, [], None)
      | Some f \<Rightarrow>
          let fetchedItems = fetched_items f in
          if fetchedItems \<noteq> []
          then (case upsertMany (comparator svc) fetchedItems (items s) of
                  Rejected d pre \<Rightarrow>
                    (case rejectDuplicate svc (onError p) d
                            (if pre = Some True then fetchedItems else items s) of
                       (t, ex) \<Rightarrow> (s, t, ex))
                | Merged newItems \<Rightarrow>
                    (s\<lparr>items := newItems,
                       totalCountFetched :=
                         (case f of Bare xs \<Rightarrow> totalCountFetched s | FetchedItems xs tc \<Rightarrow> tc)\<rparr>,
                     callCb svc OnSuccess (onSuccess p) (ArgItems newItems)
                       @ emit svc ChRead fetchedItems,
                     None))
          else (case f of
                  FetchedItems xs (Some tc) \<Rightarrow> (s\<lparr>totalCountFetched := Some tc\<rparr>, [], None)
                | _ \<Rightarrow> (s, [], None)))"

definition refreshMany_settled ::
  "'a service \<Rightarrow> 'a ItemsParams \<Rightarrow> 'a fetched option outcome \<Rightarrow> ('a, 'u, 't) CollectionState
   \<Rightarrow> ('a, 'u, 't, 'a fetched option) settled" where
  "refreshMany_settled svc p out s =
     pipe_tapResponse svc (refreshMany_next svc p) (report_error svc (onError p))
       (removeFromRefreshingItems svc (Many (ItemsParams.items p))) out s"

section \<open>update, updateMany\<close>

definition update_call ::
  "'a service \<Rightarrow> 'a UpdateParams \<Rightarrow> ('a, 'u, 't) CollectionState
   \<Rightarrow> ('a, 'u, 't) CollectionState" where
  "update_call svc p s = addToUpdatingItems svc (One (item p)) s"

text \<open>The parameters \<^verbatim>\<open>update\<close> hands to \<^verbatim>\<open>this.refresh\<close>.\<close>

definition update_refresh_params :: "'a UpdateParams \<Rightarrow> 'a ItemParams" where
  "update_refresh_params p = \<lparr>onSuccess = onSuccess p, onError = onError p, item = item p\<rparr>"

text \<open>
  The function under \<^verbatim>\<open>switchMap\<close>. With a \<^verbatim>\<open>refreshRequest\<close> it calls \<^verbatim>\<open>this.refresh\<close>, whose
  synchronous part runs at once; that refresh is then settled by \<open>refresh_settled\<close> on
  \<open>update_refresh_params p\<close> when the second request settles.
\<close>

definition update_inner ::
  "'a service \<Rightarrow> 'a UpdateParams \<Rightarrow> 'a option \<Rightarrow> ('a, 'u, 't) CollectionState
   \<Rightarrow> ('a, 'u, 't) CollectionState \<times> 'a event list \<times> errv option \<times> 'a option delivery" where
  "update_inner svc p v s =
     (if UpdateParams.refreshRequest p
      then (refresh_call svc (update_refresh_params p) s, [], None, Pending)
      else (case v of
              None \<Rightarrow> (s, [], None, Delivers v)
            | Some n \<Rightarrow>
                (case upsertOne (comparator svc) n (items s) of
                   Duplicate \<Rightarrow>
                     (case rejectDuplicate svc (onError p) n (items s) of
                        (t, ex) \<Rightarrow> (s, t, ex, Delivers v))
                 | Upserted newItems \<Rightarrow>
                     (s\<lparr>items := newItems\<rparr>,
                      callCb svc OnSuccess (onSuccess p) (ArgItem n) @ emit svc ChUpdate [n],
                      None, Delivers v))))"

definition update_settled ::
  "'a service \<Rightarrow> 'a UpdateParams \<Rightarrow> 'a option outcome
   \<Rightarrow> ('a, 'u, 't) CollectionState
   \<Rightarrow> ('a, 'u, 't, 'a option) settled" where
  "update_settled svc p out s =
     pipe_switchMap svc (onError p) (update_inner svc p)
       (removeFromUpdatingItems svc (One (item p))) out s"

definition updateMany_call ::
  "'a service \<Rightarrow> 'a UpdateManyParams \<Rightarrow> ('a, 'u, 't) CollectionState
   \<Rightarrow> ('a, 'u, 't) CollectionState" where
  "updateMany_call svc p s = addToUpdatingItems svc (Many (ItemsParams.items p)) s"

definition updateMany_refresh_params :: "'a UpdateManyParams \<Rightarrow> 'a ItemsParams" where
  "updateMany_refresh_params p =
     \<lparr>onSuccess = onSuccess p, onError = onError p, ItemsParams.items = ItemsParams.items p\<rparr>"

definition updateMany_inner ::
  "'a service \<Rightarrow> 'a UpdateManyParams \<Rightarrow> 'a list option \<Rightarrow> ('a, 'u, 't) CollectionState
   \<Rightarrow> ('a, 'u, 't) CollectionState \<times> 'a event list \<times> errv option \<times> 'a list option delivery" where
  "updateMany_inner svc p v s =
     (if UpdateManyParams.refreshRequest p
      then (refreshMany_call svc (updateMany_refresh_params p) s, [], None, Pending)
      else (case v of
              None \<Rightarrow> (s, [], None, Delivers v)
            | Some updatedItems \<Rightarrow>
                (case upsertMany (comparator svc) updatedItems (items s) of
                   Rejected d pre \<Rightarrow>
                     (case rejectDuplicate svc (onError p) d
                             (if pre = Some True then updatedItems else items s) of
                        (t, ex) \<Rightarrow> (s, t, ex, Delivers v))
                 | Merged newItems \<Rightarrow>
                     (s\<lparr>items := newItems\<rparr>,
                      callCb svc OnSuccess (onSuccess p) (ArgItems updatedItems)
                        @ emit svc ChUpdate updatedItems,
                      None, Delivers v))))"

definition updateMany_settled ::
  "'a service \<Rightarrow> 'a UpdateManyParams \<Rightarrow> 'a list option outcome \<Rightarrow> ('a, 'u, 't) CollectionState
   \<Rightarrow> ('a, 'u, 't, 'a list option) settled" where
  "updateMany_settled svc p out s =
     pipe_switchMap svc (onError p) (updateMany_inner svc p)
       (removeFromUpdatingItems svc (Many (ItemsParams.items p))) out s"

section \<open>The decrement policy\<close>

text \<open>\<^verbatim>\<open>Math.round\<close> rounds halves towards \<open>+\<infinity>\<close>.\<close>

definition Math_round :: "rat \<Rightarrow> int" where
  "Math_round x = \<lfloor>x + 1 / 2\<rfloor>"

text \<open>\<^verbatim>\<open>typeof r === 'object' && r != null\<close>\<close>

fun is_object :: "json \<Rightarrow> bool" where
  "is_object (JObject kvs) = True"
| "is_object (JArray xs) = True"
| "is_object r = False"

text \<open>The canonical decimal index a property key of an array stands for.\<close>

fun decimal :: "string \<Rightarrow> nat \<Rightarrow> nat option" where
  "decimal [] acc = Some acc"
| "decimal (ch # cs) acc =
     (if ch \<in> set ''0123456789'' then decimal cs (10 * acc + (of_char ch - 48)) else None)"

definition array_index :: "string \<Rightarrow> nat option" where
  "array_index k =
     (case k of
        [] \<Rightarrow> None
      | ch # cs \<Rightarrow> if ch = CHR ''0'' \<and> cs \<noteq> [] then None else decimal k 0)"

text \<open>\<^verbatim>\<open>Object.hasOwn(r, key)\<close> together with \<^verbatim>\<open>r[key]\<close>: the own property, if there is one.\<close>

fun ownProperty :: "json \<Rightarrow> string \<Rightarrow> json option" where
  "ownProperty (JObject kvs) k = map_of kvs k"
| "ownProperty (JArray xs) k =
     (if k = ''length'' then Some (JNumber (of_nat (length xs)))
      else (case array_index k of
              None \<Rightarrow> None
            | Some i \<Rightarrow> if i < length xs then Some (xs ! i) else None))"
| "ownProperty r k = None"

text \<open>
  \<^verbatim>\<open>getDecrementedTotalCount\<close>; \<open>None\<close> is \<^verbatim>\<open>null\<close>. \<^verbatim>\<open>if (prevTotalCount)\<close> fails on
  \<^verbatim>\<open>undefined\<close> and on \<open>0\<close>. The body is wrapped in \<^verbatim>\<open>try\<close>/\<^verbatim>\<open>catch\<close>; no branch of it raises.
\<close>

definition getDecrementedTotalCount ::
  "json list \<Rightarrow> nat \<Rightarrow> rat option \<Rightarrow> decrement option
   \<Rightarrow> rat option" where
  "getDecrementedTotalCount response itemsCount prevTotalCount decr =
     (case decr of
        None \<Rightarrow> None
      | Some (DString field) \<Rightarrow>
          (case response of
             [r] \<Rightarrow>
               if is_object r
               then (case ownProperty r field of
                       Some (JNumber n) \<Rightarrow>
                         if n \<ge> 0 \<and> of_int (Math_round n) = n then Some n else None
                     | _ \<Rightarrow> None)
               else None
           | _ \<Rightarrow> None)
      | Some (DNumber d) \<Rightarrow>
          (case prevTotalCount of
             None \<Rightarrow> None
           | Some prev \<Rightarrow>
               if prev = 0 then None
               else if of_int (Math_round d) = d \<and> of_int (Math_round d) > (0 :: rat)
                       \<and> prev \<ge> of_int (Math_round d)
               then Some (prev - d) else None)
      | Some (DBool b) \<Rightarrow>
          (case prevTotalCount of
             None \<Rightarrow> None
           | Some prev \<Rightarrow>
               if prev = 0 then None
               else if prev \<ge> of_nat itemsCount then Some (prev - of_nat itemsCount)
               else None))"

section \<open>delete, deleteMany\<close>

definition delete_call ::
  "'a service \<Rightarrow> 'a DeleteParams \<Rightarrow> ('a, 'u, 't) CollectionState
   \<Rightarrow> ('a, 'u, 't) CollectionState" where
  "delete_call svc p s = addToDeletingItems svc (One (item p)) s"

text \<open>\<^verbatim>\<open>params.onSuccess ? () => params.onSuccess?.(response) : undefined\<close>\<close>

fun bind_response ::
  "'a callback option \<Rightarrow> 'a arg \<Rightarrow> 'a callback option" where
  "bind_response None a = None"
| "bind_response (Some (Callback b)) a = Some (Bound a b)"
| "bind_response (Some (Bound a' b)) a = Some (Bound a' b)"

text \<open>The parameters \<^verbatim>\<open>delete\<close> hands to \<^verbatim>\<open>this.read\<close>; \<^verbatim>\<open>keepExistingOnError\<close> is not passed.\<close>

definition delete_read_params ::
  "'a DeleteParams \<Rightarrow> json \<Rightarrow> 'a ReadParams" where
  "delete_read_params p response =
     \<lparr>onSuccess = bind_response (onSuccess p) (ArgResponse response), onError = onError p,
      keepExistingOnError = False\<rparr>"

definition delete_inner ::
  "'a service \<Rightarrow> 'a DeleteParams \<Rightarrow> json \<Rightarrow> ('a, 'u, 't) CollectionState
   \<Rightarrow> ('a, 'u, 't) CollectionState \<times> 'a event list \<times> errv option \<times> json delivery" where
  "delete_inner svc p response s =
     (if DeleteParams.readRequest p
      then (read_call s, [], None, Pending)
      else
        let newTotalCount = getDecrementedTotalCount [response] 1 (totalCountFetched s)
                              (DeleteParams.decrementTotalCount p);
            filteredItems = filter (\<lambda>i. \<not> equal_cmp (comparator svc) i (item p)) (items s)
        in ((case newTotalCount of
               None \<Rightarrow> s\<lparr>items := filteredItems\<rparr>
             | Some n \<Rightarrow> s\<lparr>items := filteredItems, totalCountFetched := Some n\<rparr>),
            callCb svc OnSuccess (onSuccess p) (ArgResponse response)
              @ emit svc ChDelete [item p],
            None, Delivers response))"

definition delete_settled ::
  "'a service \<Rightarrow> 'a DeleteParams \<Rightarrow> json outcome
   \<Rightarrow> ('a, 'u, 't) CollectionState \<Rightarrow> ('a, 'u, 't, json) settled" where
  "delete_settled svc p out s =
     pipe_switchMap svc (onError p) (delete_inner svc p)
       (removeFromDeletingItems svc (One (item p))) out s"

definition deleteMany_call ::
  "'a service \<Rightarrow> 'a DeleteManyParams \<Rightarrow> ('a, 'u, 't) CollectionState
   \<Rightarrow> ('a, 'u, 't) CollectionState" where
  "deleteMany_call svc p s = addToDeletingItems svc (Many (ItemsParams.items p)) s"

definition deleteMany_read_params ::
  "'a DeleteManyParams \<Rightarrow> json list \<Rightarrow> 'a ReadParams" where
  "deleteMany_read_params p response =
     \<lparr>onSuccess = bind_response (onSuccess p) (ArgResponses response), onError = onError p,
      keepExistingOnError = False\<rparr>"

text \<open>The outcome of \<^verbatim>\<open>deleteMany\<close> is that of \<^verbatim>\<open>forkJoin\<close> over the request or requests:
  the array of their responses.\<close>

definition deleteMany_inner ::
  "'a service \<Rightarrow> 'a DeleteManyParams \<Rightarrow> json list \<Rightarrow> ('a, 'u, 't) CollectionState
   \<Rightarrow> ('a, 'u, 't) CollectionState \<times> 'a event list \<times> errv option \<times> json list delivery" where
  "deleteMany_inner svc p response s =
     (if DeleteManyParams.readRequest p
      then (read_call s, [], None, Pending)
      else
        let newTotalCount = getDecrementedTotalCount response (length (ItemsParams.items p))
                              (totalCountFetched s) (DeleteManyParams.decrementTotalCount p);
            newItems = filter (\<lambda>i. \<not> has (comparator svc) i (ItemsParams.items p)) (items s)
        in ((case newTotalCount of
               None \<Rightarrow> s\<lparr>items := newItems\<rparr>
             | Some n \<Rightarrow> s\<lparr>items := newItems, totalCountFetched := Some n\<rparr>),
            callCb svc OnSuccess (onSuccess p) (ArgResponses response)
              @ emit svc ChDelete (ItemsParams.items p),
            None, Delivers response))"

definition deleteMany_settled ::
  "'a service \<Rightarrow> 'a DeleteManyParams \<Rightarrow> json list outcome \<Rightarrow> ('a, 'u, 't) CollectionState
   \<Rightarrow> ('a, 'u, 't, json list) settled" where
  "deleteMany_settled svc p out s =
     pipe_switchMap svc (onError p) (deleteMany_inner svc p)
       (removeFromDeletingItems svc (Many (ItemsParams.items p))) out s"

section \<open>Every operation\<close>

text \<open>
  The eleven operations under one type, each with its parameters and the outcome of its
  request, so that a statement can range over all of them. \<open>called\<close> is the synchronous
  part of the method, \<open>completed\<close> the state once the request has settled.
\<close>

datatype 'a operation =
    Create "'a Callbacks" "'a option outcome"
  | CreateMany "'a Callbacks" "'a fetched option outcome"
  | Read "'a ReadParams" "'a fetched option outcome"
  | ReadOne "'a Callbacks" "'a option outcome"
  | ReadMany "'a Callbacks" "'a fetched option outcome"
  | Update "'a UpdateParams" "'a option outcome"
  | UpdateMany "'a UpdateManyParams" "'a list option outcome"
  | Delete "'a DeleteParams" "json outcome"
  | DeleteMany "'a DeleteManyParams" "json list outcome"
  | Refresh "'a ItemParams" "'a option outcome"
  | RefreshMany "'a ItemsParams" "'a fetched option outcome"

fun called ::
  "'a service \<Rightarrow> 'a operation \<Rightarrow> ('a, 'u, 't) CollectionState
   \<Rightarrow> ('a, 'u, 't) CollectionState" where
  "called svc (Create p out) s = create_call s"
| "called svc (CreateMany p out) s = createMany_call s"
| "called svc (Read p out) s = read_call s"
| "called svc (ReadOne p out) s = readOne_call s"
| "called svc (ReadMany p out) s = readMany_call s"
| "called svc (Update p out) s = update_call svc p s"
| "called svc (UpdateMany p out) s = updateMany_call svc p s"
| "called svc (Delete p out) s = delete_call svc p s"
| "called svc (DeleteMany p out) s = deleteMany_call svc p s"
| "called svc (Refresh p out) s = refresh_call svc p s"
| "called svc (RefreshMany p out) s = refreshMany_call svc p s"

fun completed ::
  "'a service \<Rightarrow> 'a operation \<Rightarrow> ('a, 'u, 't) CollectionState
   \<Rightarrow> ('a, 'u, 't) CollectionState" where
  "completed svc (Create p out) s = after (create_settled svc p out s)"
| "completed svc (CreateMany p out) s = after (createMany_settled svc p out s)"
| "completed svc (Read p out) s = after (read_settled svc p out s)"
| "completed svc (ReadOne p out) s = after (readOne_settled svc p out s)"
| "completed svc (ReadMany p out) s = after (readMany_settled svc p out s)"
| "completed svc (Update p out) s = after (update_settled svc p out s)"
| "completed svc (UpdateMany p out) s = after (updateMany_settled svc p out s)"
| "completed svc (Delete p out) s = after (delete_settled svc p out s)"
| "completed svc (DeleteMany p out) s = after (deleteMany_settled svc p out s)"
| "completed svc (Refresh p out) s = after (refresh_settled svc p out s)"
| "completed svc (RefreshMany p out) s = after (refreshMany_settled svc p out s)"

text \<open>What marks an operation as in flight: one of the two flags or one of the three
  sets; the partial entities the operation was called with; the content of a set.\<close>

datatype tracker = IsCreating | IsReading | UpdatingItems | DeletingItems | RefreshingItems

fun tracker_of :: "'a operation \<Rightarrow> tracker" where
  "tracker_of (Create p out) = IsCreating"
| "tracker_of (CreateMany p out) = IsCreating"
| "tracker_of (Read p out) = IsReading"
| "tracker_of (ReadOne p out) = IsReading"
| "tracker_of (ReadMany p out) = IsReading"
| "tracker_of (Update p out) = UpdatingItems"
| "tracker_of (UpdateMany p out) = UpdatingItems"
| "tracker_of (Delete p out) = DeletingItems"
| "tracker_of (DeleteMany p out) = DeletingItems"
| "tracker_of (Refresh p out) = RefreshingItems"
| "tracker_of (RefreshMany p out) = RefreshingItems"

fun arg_items :: "'a itemOrItems \<Rightarrow> 'a list" where
  "arg_items (One x) = [x]"
| "arg_items (Many xs) = xs"

fun own_items :: "'a operation \<Rightarrow> 'a list" where
  "own_items (Update p out) = [item p]"
| "own_items (UpdateMany p out) = ItemsParams.items p"
| "own_items (Delete p out) = [item p]"
| "own_items (DeleteMany p out) = ItemsParams.items p"
| "own_items (Refresh p out) = [item p]"
| "own_items (RefreshMany p out) = ItemsParams.items p"
| "own_items other = []"

fun tracked :: "tracker \<Rightarrow> ('a, 'u, 't) CollectionState \<Rightarrow> 'a list" where
  "tracked UpdatingItems s = updatingItems s"
| "tracked DeletingItems s = deletingItems s"
| "tracked RefreshingItems s = refreshingItems s"
| "tracked flag s = []"

section \<open>A concrete entity type\<close>

text \<open>
  Entities of the scenarios: \<open>ref\<close> is the identity of the object, \<open>ident\<close> its field
  \<^verbatim>\<open>id\<close>. Two objects \<^verbatim>\<open>{id: 1}\<close> built at different places differ in \<open>ref\<close> only.
\<close>

record entity =
  ref :: nat
  ident :: int

text \<open>
  Modelled from the spec: the class \<^verbatim>\<open>Comparator\<close> of \<^verbatim>\<open>./comparator\<close>, which is not among
  the sources, configured with \<^verbatim>\<open>comparatorFields: ['id']\<close>. Two entities are equal when
  their \<^verbatim>\<open>id\<close> fields are; an array has no field \<^verbatim>\<open>id\<close>, so no entity equals an array.
  The function \<^verbatim>\<open>(a, b) => a.id === b.id\<close>, which \<^verbatim>\<open>setComparator\<close> accepts, answers the same.
\<close>

definition by_id :: "entity objectsComparator" where
  "by_id = \<lparr>equal_cmp = (\<lambda>a b. ident a = ident b), equal_list = (\<lambda>a xs. False)\<rparr>"

text \<open>The field initialisers of the class (\<^verbatim>\<open>allowFetchedDuplicates = true\<close>,
  \<^verbatim>\<open>onDuplicateErrCallbackParam = {status: 409}\<close>, nothing else set), with a comparator, no
  listener on any channel, and the behaviour of \<^verbatim>\<open>tapResponse\<close> as parameter.\<close>

definition defaults :: "'a objectsComparator \<Rightarrow> bool \<Rightarrow> 'a service" where
  "defaults c fw =
     \<lparr>comparator = c, throwOnDuplicates = None, allowFetchedDuplicates = True,
      onDuplicateErrCallbackParam = JObject [(''status'', JNumber 409)],
      errReporter = None, observed = (\<lambda>ch. False), tapResponseForwardsThrown = fw\<rparr>"

text \<open>Callbacks that are both present and return.\<close>

definition both_callbacks :: "'a Callbacks" where
  "both_callbacks = \<lparr>onSuccess = Some (Callback Returns), onError = Some (Callback Returns)\<rparr>"

section \<open>Properties of the upsert engine\<close>

lemma upsertOne_loop_found:
  "0 \<le> f \<Longrightarrow> upsertOne_loop c e xs k f =
     (f, case filter (\<lambda>i. equal_cmp c e (xs ! (i - k))) [k ..< k + length xs] of
           [] \<Rightarrow> - 1 | d # _ \<Rightarrow> int d)"
proof (induction xs arbitrary: k)
  case Nil
  then show ?case by simp
next
  case (Cons x xs)
  have shift: "filter (\<lambda>i. equal_cmp c e ((x # xs) ! (i - k))) [Suc k ..< Suc (k + length xs)]
             = filter (\<lambda>i. equal_cmp c e (xs ! (i - Suc k))) [Suc k ..< Suc k + length xs]"
    by (rule filter_cong) (auto simp: nth_Cons')
  have "[k ..< Suc (k + length xs)] = k # [Suc k ..< Suc (k + length xs)]"
    by (rule upt_conv_Cons) simp
  with Cons shift show ?case by simp
qed

lemma upsertOne_loop_fresh:
  "f < 0 \<Longrightarrow> upsertOne_loop c e xs k f =
     (case filter (\<lambda>i. equal_cmp c e (xs ! (i - k))) [k ..< k + length xs] of
        [] \<Rightarrow> (f, - 1)
      | [a] \<Rightarrow> (int a, - 1)
      | a # d # _ \<Rightarrow> (int a, int d))"
proof (induction xs arbitrary: k)
  case Nil
  then show ?case by simp
next
  case (Cons x xs)
  have shift: "filter (\<lambda>i. equal_cmp c e ((x # xs) ! (i - k))) [Suc k ..< Suc (k + length xs)]
             = filter (\<lambda>i. equal_cmp c e (xs ! (i - Suc k))) [Suc k ..< Suc k + length xs]"
    by (rule filter_cong) (auto simp: nth_Cons')
  have upt: "[k ..< Suc (k + length xs)] = k # [Suc k ..< Suc (k + length xs)]"
    by (rule upt_conv_Cons) simp
  show ?case
  proof (cases "equal_cmp c e x")
    case True
    have "upsertOne_loop c e (x # xs) k f = upsertOne_loop c e xs (Suc k) (int k)"
      using True Cons.prems by simp
    also have "\<dots> = (int k, case filter (\<lambda>i. equal_cmp c e (xs ! (i - Suc k)))
                                  [Suc k ..< Suc k + length xs] of [] \<Rightarrow> - 1 | d # _ \<Rightarrow> int d)"
      by (rule upsertOne_loop_found) simp
    finally show ?thesis
      using True upt shift by (simp split: list.splits)
  next
    case False
    then show ?thesis
      using Cons upt shift by simp
  qed
qed

text \<open>
  C7. \<^verbatim>\<open>upsertOne(item, items)\<close> is decided by the positions of \<open>items\<close> whose element
  the comparator equates with \<open>item\<close> (\<^verbatim>\<open>this.comparator.equal(item, items[i])\<close>): with no
  such position \<open>item\<close> is appended at the end; with exactly one, the element at that
  position is replaced by \<open>item\<close>; with two or more the result is \<^verbatim>\<open>'duplicate'\<close> and
  nothing is merged.
\<close>

theorem upsertOne_by_matches:
  "upsertOne c e its =
     (case filter (\<lambda>i. equal_cmp c e (its ! i)) [0 ..< length its] of
        [] \<Rightarrow> Upserted (its @ [e])
      | [i] \<Rightarrow> Upserted (its[i := e])
      | _ # _ # _ \<Rightarrow> Duplicate)"
  using upsertOne_loop_fresh [of "- 1" c e its 0]
  by (simp add: upsertOne_def split: list.splits)

section \<open>Facts used throughout\<close>

lemmas pipe_defs = pipe_tapResponse_def pipe_switchMap_def report_error_def rejectDuplicate_def
  duplicateNotAdded_def callErrReporter_def emit_def Let_def

lemma Math_round_of_int [simp]: "Math_round (of_int k) = k"
  unfolding Math_round_def by (rule floor_unique) simp_all

lemma Math_round_numeral [simp]: "Math_round (numeral n) = numeral n"
  using Math_round_of_int [of "numeral n"] by simp

lemma Math_round_integral: "(of_int (Math_round d) = d) = (d \<in> \<int>)"
  by (auto elim: Ints_cases) (metis Ints_of_int)

section \<open>Uniqueness of the committed items\<close>

text \<open>
  C1. The claim asks that no sequence of operations from the initial state leaves two
  Comparator-equal elements in \<open>items\<close> (a tolerated \<^verbatim>\<open>read\<close> apart), and in particular
  that a successful \<^verbatim>\<open>createMany\<close> whose batch holds an entity equal to exactly one
  existing element does not. The code does otherwise. With the comparator by \<^verbatim>\<open>id\<close>,
  \<^verbatim>\<open>create\<close> of \<^verbatim>\<open>{id: 1}\<close> from the initial state followed by \<^verbatim>\<open>createMany\<close> resolving to
  \<^verbatim>\<open>[{id: 1}]\<close>: \<^verbatim>\<open>upsertMany\<close> finds one match, replaces it in the copy and reports no
  duplicate; the success branch then commits \<^verbatim>\<open>[...items, ...fetchedItems]\<close>. The success
  callback is invoked and \<open>items\<close> holds both entities, which \<^verbatim>\<open>hasDuplicates\<close> reports.
\<close>

theorem createMany_appends_matching_entity:
  "items (after (createMany_settled (defaults by_id fw) both_callbacks
            (Emits (Some (Bare [\<lparr>ref = 2, ident = 1\<rparr>])))
            (createMany_call (after (create_settled (defaults by_id fw) both_callbacks
               (Emits (Some \<lparr>ref = 1, ident = 1\<rparr>)) (create_call initialState))))))
     = [\<lparr>ref = 1, ident = 1\<rparr>, \<lparr>ref = 2, ident = 1\<rparr>]
   \<and> trace (createMany_settled (defaults by_id fw) both_callbacks
            (Emits (Some (Bare [\<lparr>ref = 2, ident = 1\<rparr>])))
            (createMany_call (after (create_settled (defaults by_id fw) both_callbacks
               (Emits (Some \<lparr>ref = 1, ident = 1\<rparr>)) (create_call initialState)))))
     = [Called OnSuccess (ArgItems [\<lparr>ref = 2, ident = 1\<rparr>])]
   \<and> hasDuplicates by_id [\<lparr>ref = 1, ident = 1\<rparr>, \<lparr>ref = 2, ident = 1\<rparr>]
     = Some \<lparr>ref = 2, ident = 1\<rparr>"
  by (simp add: createMany_settled_def createMany_call_def create_settled_def create_call_def
      initialState_def create_next_def createMany_next_def hasItemIn_def defaults_def by_id_def
      both_callbacks_def upsertMany_def upsertOne_def pipe_defs)

section \<open>The add step of the tracking sets\<close>

text \<open>
  C6. The claim asks that the add step never puts an entity into a tracking set that
  already has a Comparator-equal member, for a single input and for a list. For a list
  the code asks \<^verbatim>\<open>hasItemIn\<close> about the array as a whole, which no member equals, and
  appends every resolved input. \<^verbatim>\<open>update({item: {id: 1}})\<close> followed by
  \<^verbatim>\<open>updateMany({items: [{id: 1}]})\<close>, both still in flight, leaves two Comparator-equal
  members in \<open>updatingItems\<close>.
\<close>

theorem add_tracking_list_duplicates:
  "updatingItems (updateMany_call (defaults by_id fw)
       \<lparr>onSuccess = None, onError = None, ItemsParams.items = [\<lparr>ref = 2, ident = 1\<rparr>],
        refreshRequest = False\<rparr>
       (update_call (defaults by_id fw)
          \<lparr>onSuccess = None, onError = None, item = \<lparr>ref = 1, ident = 1\<rparr>,
           UpdateParams.refreshRequest = False\<rparr> initialState))
     = [\<lparr>ref = 1, ident = 1\<rparr>, \<lparr>ref = 2, ident = 1\<rparr>]
   \<and> equal_cmp by_id \<lparr>ref = 1, ident = 1\<rparr> \<lparr>ref = 2, ident = 1\<rparr>"
  by (simp add: updateMany_call_def update_call_def addToUpdatingItems_def initialState_def
      defaults_def by_id_def hasItemIn_def resolve_def getItemByPartial_def)

section \<open>The decrement policy on deletion\<close>

text \<open>
  C4. The claim asks that \<^verbatim>\<open>deleteMany\<close> with a field name in \<^verbatim>\<open>decrementTotalCount\<close> reads
  that field from the first response of the batch. \<^verbatim>\<open>getDecrementedTotalCount\<close> looks at
  \<^verbatim>\<open>response[0]\<close> only when \<^verbatim>\<open>response.length === 1\<close>: with two or more responses it answers
  \<^verbatim>\<open>null\<close> whatever they hold. Two requests that both resolve to \<^verbatim>\<open>{deletedCount: 3}\<close> leave
  a total of 10 as it was; a single such response sets it to 3.
\<close>

theorem deleteMany_string_source_two_responses:
  "getDecrementedTotalCount (r1 # r2 # rs) n prev (Some (DString f)) = None
   \<and> totalCountFetched (after (deleteMany_settled (defaults by_id fw)
        \<lparr>onSuccess = None, onError = None,
         ItemsParams.items = [\<lparr>ref = 1, ident = 1\<rparr>, \<lparr>ref = 2, ident = 2\<rparr>],
         decrementTotalCount = Some (DString ''deletedCount''), readRequest = False\<rparr>
        (Emits [JObject [(''deletedCount'', JNumber 3)], JObject [(''deletedCount'', JNumber 3)]])
        (initialState\<lparr>items := [\<lparr>ref = 1, ident = 1\<rparr>, \<lparr>ref = 2, ident = 2\<rparr>],
                       totalCountFetched := Some 10\<rparr>))) = Some 10
   \<and> totalCountFetched (after (deleteMany_settled (defaults by_id fw)
        \<lparr>onSuccess = None, onError = None,
         ItemsParams.items = [\<lparr>ref = 1, ident = 1\<rparr>, \<lparr>ref = 2, ident = 2\<rparr>],
         decrementTotalCount = Some (DString ''deletedCount''), readRequest = False\<rparr>
        (Emits [JObject [(''deletedCount'', JNumber 3)]])
        (initialState\<lparr>items := [\<lparr>ref = 1, ident = 1\<rparr>, \<lparr>ref = 2, ident = 2\<rparr>],
                       totalCountFetched := Some 10\<rparr>))) = Some 3"
  by (simp add: getDecrementedTotalCount_def deleteMany_settled_def deleteMany_inner_def
      initialState_def defaults_def by_id_def has_def removeFromDeletingItems_def pipe_defs)

section \<open>create rejects a duplicate\<close>

text \<open>
  C8. \<open>items\<close> holds exactly one entity with \<^verbatim>\<open>id\<close> 1, the comparator compares by \<^verbatim>\<open>id\<close>,
  and the request of \<^verbatim>\<open>create\<close> resolves to an entity with \<^verbatim>\<open>id\<close> 1. Nothing else is
  configured: \<^verbatim>\<open>throwOnDuplicates\<close> is unset and the error reporter, if there is one,
  returns. Then \<open>items\<close> is unchanged (settling only clears \<open>isCreating\<close>), the error
  callback is invoked with \<^verbatim>\<open>onDuplicateErrCallbackParam\<close>, and the success callback is
  not invoked.
\<close>

theorem create_duplicate_rejected:
  assumes "items s = [x]" and "ident x = 1" and "ident n = 1"
    and "comparator svc = by_id"
    and "throwOnDuplicates svc = None"
    and "errReporter svc = None \<or> errReporter svc = Some Returns"
    and "onError p = Some (Callback b)"
  shows "after (create_settled svc p (Emits (Some n)) s) = s\<lparr>isCreating := False\<rparr>
       \<and> items (after (create_settled svc p (Emits (Some n)) s)) = [x]
       \<and> Called OnError (ArgError (ErrValue (onDuplicateErrCallbackParam svc)))
             \<in> set (trace (create_settled svc p (Emits (Some n)) s))
       \<and> (\<forall>a. Called OnSuccess a \<notin> set (trace (create_settled svc p (Emits (Some n)) s)))"
proof -
  have dup: "hasItemIn (comparator svc) n (items s)"
    using assms by (simp add: hasItemIn_def by_id_def)
  from assms(6) show ?thesis
  proof
    assume "errReporter svc = None"
    with dup assms show ?thesis
      by (cases b) (simp_all add: create_settled_def create_next_def pipe_defs)
  next
    assume "errReporter svc = Some Returns"
    with dup assms show ?thesis
      by (cases b) (simp_all add: create_settled_def create_next_def pipe_defs split: option.splits)
  qed
qed

theorem create_duplicate_rejected_witness:
  "after (create_settled (defaults by_id True) both_callbacks (Emits (Some \<lparr>ref = 2, ident = 1\<rparr>))
      ((initialState :: (entity, string, string) CollectionState)
         \<lparr>items := [\<lparr>ref = 1, ident = 1\<rparr>], isCreating := True\<rparr>))
     = initialState\<lparr>items := [\<lparr>ref = 1, ident = 1\<rparr>]\<rparr>
   \<and> Called OnError (ArgError (ErrValue (JObject [(''status'', JNumber 409)])))
       \<in> set (trace (create_settled (defaults by_id True) both_callbacks
                 (Emits (Some \<lparr>ref = 2, ident = 1\<rparr>))
                 ((initialState :: (entity, string, string) CollectionState)
                    \<lparr>items := [\<lparr>ref = 1, ident = 1\<rparr>], isCreating := True\<rparr>)))
   \<and> Called OnSuccess (ArgItem \<lparr>ref = 2, ident = 1\<rparr>)
       \<notin> set (trace (create_settled (defaults by_id True) both_callbacks
                 (Emits (Some \<lparr>ref = 2, ident = 1\<rparr>))
                 ((initialState :: (entity, string, string) CollectionState)
                    \<lparr>items := [\<lparr>ref = 1, ident = 1\<rparr>], isCreating := True\<rparr>)))"
  using create_duplicate_rejected
    [where s = "(initialState :: (entity, string, string) CollectionState)
                  \<lparr>items := [\<lparr>ref = 1, ident = 1\<rparr>], isCreating := True\<rparr>"
       and x = "\<lparr>ref = 1, ident = 1\<rparr>" and n = "\<lparr>ref = 2, ident = 1\<rparr>"
       and svc = "defaults by_id True" and p = both_callbacks and b = Returns]
  by (simp add: initialState_def defaults_def both_callbacks_def)


section \<open>Decrement by a number\<close>

text \<open>
  C9. \<^verbatim>\<open>delete\<close> and \<^verbatim>\<open>deleteMany\<close> without \<^verbatim>\<open>readRequest\<close> and with a number \<open>d\<close> in
  \<^verbatim>\<open>decrementTotalCount\<close>: when \<open>d\<close> is a positive whole number and at most the current
  total, the new total is the current one minus \<open>d\<close>; in every other case (also when the
  total is unset) the total is unchanged. The subscriber receives the response: nothing
  is raised.
\<close>

theorem integer_decrement:
  assumes "\<not> DeleteParams.readRequest p"
    and "DeleteParams.decrementTotalCount p = Some (DNumber d)"
    and "\<not> DeleteManyParams.readRequest q"
    and "DeleteManyParams.decrementTotalCount q = Some (DNumber d)"
  shows "totalCountFetched (after (delete_settled svc p (Emits r) s))
           = (case totalCountFetched s of
                None \<Rightarrow> None
              | Some prev \<Rightarrow>
                  if d \<in> \<int> \<and> 0 < d \<and> d \<le> prev then Some (prev - d) else Some prev)
       \<and> delivered (delete_settled svc p (Emits r) s) = Delivers r
       \<and> totalCountFetched (after (deleteMany_settled svc q (Emits rs) s))
           = (case totalCountFetched s of
                None \<Rightarrow> None
              | Some prev \<Rightarrow>
                  if d \<in> \<int> \<and> 0 < d \<and> d \<le> prev then Some (prev - d) else Some prev)
       \<and> delivered (deleteMany_settled svc q (Emits rs) s) = Delivers rs"
proof -
  have g: "getDecrementedTotalCount resp k (totalCountFetched s) (Some (DNumber d))
         = (case totalCountFetched s of
              None \<Rightarrow> None
            | Some prev \<Rightarrow> if d \<in> \<int> \<and> 0 < d \<and> d \<le> prev then Some (prev - d) else None)"
    for resp k
  proof (cases "d \<in> \<int>")
    case True
    then obtain z where "d = of_int z" by (auto elim: Ints_cases)
    then show ?thesis
      by (simp add: getDecrementedTotalCount_def split: option.splits)
  next
    case False
    then have "rat_of_int (Math_round d) \<noteq> d"
      by (simp add: Math_round_integral)
    with False show ?thesis
      by (simp add: getDecrementedTotalCount_def split: option.splits)
  qed
  show ?thesis
    using assms
    by (simp add: delete_settled_def delete_inner_def deleteMany_settled_def deleteMany_inner_def
        removeFromDeletingItems_def pipe_switchMap_def Let_def g split: option.splits)
qed

theorem integer_decrement_witness:
  "totalCountFetched (after (delete_settled (defaults by_id True)
       \<lparr>onSuccess = None, onError = None, item = \<lparr>ref = 1, ident = 1\<rparr>,
        DeleteParams.decrementTotalCount = Some (DNumber 4), DeleteParams.readRequest = False\<rparr>
       (Emits JNull)
       ((initialState :: (entity, string, string) CollectionState)\<lparr>totalCountFetched := Some 10\<rparr>)))
     = Some 6
   \<and> totalCountFetched (after (deleteMany_settled (defaults by_id True)
       \<lparr>onSuccess = None, onError = None, ItemsParams.items = [\<lparr>ref = 1, ident = 1\<rparr>],
        decrementTotalCount = Some (DNumber 4), readRequest = False\<rparr>
       (Emits [JNull])
       ((initialState :: (entity, string, string) CollectionState)\<lparr>totalCountFetched := Some 10\<rparr>)))
     = Some 6
   \<and> totalCountFetched (after (delete_settled (defaults by_id True)
       \<lparr>onSuccess = None, onError = None, item = \<lparr>ref = 1, ident = 1\<rparr>,
        DeleteParams.decrementTotalCount = Some (DNumber 11), DeleteParams.readRequest = False\<rparr>
       (Emits JNull)
       ((initialState :: (entity, string, string) CollectionState)\<lparr>totalCountFetched := Some 10\<rparr>)))
     = Some 10"
  using integer_decrement
    [where p = "\<lparr>onSuccess = None, onError = None, item = \<lparr>ref = 1, ident = 1\<rparr>,
        DeleteParams.decrementTotalCount = Some (DNumber 4), DeleteParams.readRequest = False\<rparr>"
       and q = "\<lparr>onSuccess = None, onError = None, ItemsParams.items = [\<lparr>ref = 1, ident = 1\<rparr>],
        decrementTotalCount = Some (DNumber 4), readRequest = False\<rparr>"
       and d = 4 and svc = "defaults by_id True" and r = JNull and rs = "[JNull]"
       and s = "(initialState :: (entity, string, string) CollectionState)\<lparr>totalCountFetched := Some 10\<rparr>"]
    integer_decrement
    [where p = "\<lparr>onSuccess = None, onError = None, item = \<lparr>ref = 1, ident = 1\<rparr>,
        DeleteParams.decrementTotalCount = Some (DNumber 11), DeleteParams.readRequest = False\<rparr>"
       and q = "\<lparr>onSuccess = None, onError = None, ItemsParams.items = [\<lparr>ref = 1, ident = 1\<rparr>],
        decrementTotalCount = Some (DNumber 11), readRequest = False\<rparr>"
       and d = 11 and svc = "defaults by_id True" and r = JNull and rs = "[JNull]"
       and s = "(initialState :: (entity, string, string) CollectionState)\<lparr>totalCountFetched := Some 10\<rparr>"]
  by simp

section \<open>A failed read\<close>

text \<open>
  C2, as stated: a failed \<^verbatim>\<open>read\<close> and a failed \<^verbatim>\<open>readMany\<close> both reset \<open>items\<close> to empty
  and \<open>totalCountFetched\<close> to unset unless the caller opted to keep existing data. For
  \<^verbatim>\<open>readMany\<close> this is false: its parameters have no \<^verbatim>\<open>keepExistingOnError\<close> and its error
  callback only calls \<^verbatim>\<open>params.onError\<close>. A failed \<^verbatim>\<open>readMany\<close> on a state with one item and
  a total of 7 leaves both.
\<close>

theorem readMany_failure_keeps_items:
  "items (after (readMany_settled (defaults by_id True) both_callbacks (Fails JNull)
      (readMany_call (initialState\<lparr>items := [\<lparr>ref = 1, ident = 1\<rparr>],
                                     totalCountFetched := Some 7\<rparr>))))
     = [\<lparr>ref = 1, ident = 1\<rparr>]
   \<and> totalCountFetched (after (readMany_settled (defaults by_id True) both_callbacks (Fails JNull)
      (readMany_call (initialState\<lparr>items := [\<lparr>ref = 1, ident = 1\<rparr>],
                                     totalCountFetched := Some 7\<rparr>))))
     = Some 7"
  by (simp add: readMany_settled_def readMany_call_def initialState_def pipe_defs)

text \<open>
  C2, amended. When the request of \<^verbatim>\<open>read\<close> fails and the caller did not set
  \<^verbatim>\<open>keepExistingOnError\<close>, \<open>items\<close> becomes empty, \<open>totalCountFetched\<close> unset and
  \<open>isReading\<close> false, and the only callback invoked is \<^verbatim>\<open>onError\<close>, with the error. When
  the request of \<^verbatim>\<open>readMany\<close> fails, \<open>items\<close> and \<open>totalCountFetched\<close> are left as they
  are, \<open>isReading\<close> becomes false, and the only callback invoked is \<^verbatim>\<open>onError\<close>, with the
  error.
\<close>

theorem read_failure_resets_readMany_failure_keeps:
  assumes "\<not> keepExistingOnError p"
  shows "after (read_settled svc p (Fails err) s)
           = s\<lparr>items := [], totalCountFetched := None, isReading := False\<rparr>
       \<and> trace (read_settled svc p (Fails err) s)
           = callCb svc OnError (onError p) (ArgError (ErrValue err))
       \<and> after (readMany_settled svc q (Fails err) s) = s\<lparr>isReading := False\<rparr>
       \<and> trace (readMany_settled svc q (Fails err) s)
           = callCb svc OnError (onError q) (ArgError (ErrValue err))"
  using assms
  by (simp add: read_settled_def read_error_def readMany_settled_def pipe_defs)

theorem read_failure_witness:
  "after (read_settled (defaults by_id True)
            \<lparr>onSuccess = None, onError = Some (Callback Returns), keepExistingOnError = False\<rparr>
            (Fails JNull)
            ((initialState :: (entity, string, string) CollectionState)\<lparr>items := [\<lparr>ref = 1, ident = 1\<rparr>], totalCountFetched := Some 7,
                           isReading := True\<rparr>))
     = initialState
   \<and> trace (read_settled (defaults by_id True)
            \<lparr>onSuccess = None, onError = Some (Callback Returns), keepExistingOnError = False\<rparr>
            (Fails JNull)
            ((initialState :: (entity, string, string) CollectionState)\<lparr>items := [\<lparr>ref = 1, ident = 1\<rparr>], totalCountFetched := Some 7,
                           isReading := True\<rparr>))
     = [Called OnError (ArgError (ErrValue JNull))]
   \<and> after (readMany_settled (defaults by_id True) both_callbacks (Fails JNull)
            ((initialState :: (entity, string, string) CollectionState)\<lparr>items := [\<lparr>ref = 1, ident = 1\<rparr>], totalCountFetched := Some 7,
                           isReading := True\<rparr>))
     = initialState\<lparr>items := [\<lparr>ref = 1, ident = 1\<rparr>], totalCountFetched := Some 7\<rparr>
   \<and> trace (readMany_settled (defaults by_id True) both_callbacks (Fails JNull)
            ((initialState :: (entity, string, string) CollectionState)\<lparr>items := [\<lparr>ref = 1, ident = 1\<rparr>], totalCountFetched := Some 7,
                           isReading := True\<rparr>))
     = [Called OnError (ArgError (ErrValue JNull))]"
  using read_failure_resets_readMany_failure_keeps
    [where p = "\<lparr>onSuccess = None, onError = Some (Callback Returns), keepExistingOnError = False\<rparr>"
       and svc = "defaults by_id True" and err = JNull and q = both_callbacks
       and s = "(initialState :: (entity, string, string) CollectionState)\<lparr>items := [\<lparr>ref = 1, ident = 1\<rparr>], totalCountFetched := Some 7,
                      isReading := True\<rparr>"]
  by (simp add: initialState_def both_callbacks_def)

section \<open>Decrement by the boolean\<close>

text \<open>
  C5, as stated: the total goes down by the number of entities the call actually removed
  from \<open>items\<close>. The code passes \<^verbatim>\<open>params.items.length\<close> to \<^verbatim>\<open>getDecrementedTotalCount\<close>, as
  \<^verbatim>\<open>delete\<close> passes the constant 1: the number of entities asked for, present in \<open>items\<close>
  or not. Deleting one entity that \<open>items\<close> does not hold removes nothing and takes a
  total of 5 to 4.
\<close>

theorem deleteMany_counts_inputs_not_removals:
  "totalCountFetched (after (deleteMany_settled (defaults by_id True)
       \<lparr>onSuccess = None, onError = None, ItemsParams.items = [\<lparr>ref = 9, ident = 9\<rparr>],
        decrementTotalCount = Some (DBool True), readRequest = False\<rparr>
       (Emits [JNull])
       ((initialState :: (entity, string, string) CollectionState)
          \<lparr>items := [\<lparr>ref = 1, ident = 1\<rparr>], totalCountFetched := Some 5\<rparr>)))
     = Some 4
   \<and> items (after (deleteMany_settled (defaults by_id True)
       \<lparr>onSuccess = None, onError = None, ItemsParams.items = [\<lparr>ref = 9, ident = 9\<rparr>],
        decrementTotalCount = Some (DBool True), readRequest = False\<rparr>
       (Emits [JNull])
       ((initialState :: (entity, string, string) CollectionState)
          \<lparr>items := [\<lparr>ref = 1, ident = 1\<rparr>], totalCountFetched := Some 5\<rparr>)))
     = [\<lparr>ref = 1, ident = 1\<rparr>]"
  by (simp add: deleteMany_settled_def deleteMany_inner_def getDecrementedTotalCount_def
      initialState_def defaults_def by_id_def has_def removeFromDeletingItems_def pipe_defs)

text \<open>
  C5, amended. For \<^verbatim>\<open>deleteMany\<close> without \<^verbatim>\<open>readRequest\<close> and with
  \<^verbatim>\<open>decrementTotalCount: true\<close>, the new total is the current one minus the number of
  partial entities passed in \<^verbatim>\<open>params.items\<close>, and it is changed only when the current
  total is at least that number (prior total 5 and two entities passed gives 3). With an
  unset total nothing changes.
\<close>

theorem deleteMany_boolean_decrement:
  assumes "\<not> DeleteManyParams.readRequest q"
    and "DeleteManyParams.decrementTotalCount q = Some (DBool True)"
  shows "totalCountFetched (after (deleteMany_settled svc q (Emits rs) s))
           = (case totalCountFetched s of
                None \<Rightarrow> None
              | Some prev \<Rightarrow>
                  if of_nat (length (ItemsParams.items q)) \<le> prev
                  then Some (prev - of_nat (length (ItemsParams.items q)))
                  else Some prev)"
  using assms
  by (simp add: deleteMany_settled_def deleteMany_inner_def getDecrementedTotalCount_def
      removeFromDeletingItems_def pipe_switchMap_def Let_def split: option.splits)

theorem deleteMany_boolean_decrement_witness:
  "totalCountFetched (after (deleteMany_settled (defaults by_id True)
       \<lparr>onSuccess = None, onError = None,
        ItemsParams.items = [\<lparr>ref = 7, ident = 1\<rparr>, \<lparr>ref = 8, ident = 2\<rparr>],
        decrementTotalCount = Some (DBool True), readRequest = False\<rparr>
       (Emits [JNull, JNull])
       ((initialState :: (entity, string, string) CollectionState)
          \<lparr>items := [\<lparr>ref = 1, ident = 1\<rparr>, \<lparr>ref = 2, ident = 2\<rparr>, \<lparr>ref = 3, ident = 3\<rparr>],
           totalCountFetched := Some 5\<rparr>)))
     = Some 3"
  using deleteMany_boolean_decrement
    [where q = "\<lparr>onSuccess = None, onError = None,
        ItemsParams.items = [\<lparr>ref = 7, ident = 1\<rparr>, \<lparr>ref = 8, ident = 2\<rparr>],
        decrementTotalCount = Some (DBool True), readRequest = False\<rparr>"
       and svc = "defaults by_id True" and rs = "[JNull, JNull]"
       and s = "(initialState :: (entity, string, string) CollectionState)
          \<lparr>items := [\<lparr>ref = 1, ident = 1\<rparr>, \<lparr>ref = 2, ident = 2\<rparr>, \<lparr>ref = 3, ident = 3\<rparr>],
           totalCountFetched := Some 5\<rparr>"]
  by simp

section \<open>Tracking symmetry\<close>

lemma has_iff: "has c i xs = (\<exists>x \<in> set xs. equal_cmp c i x)"
  by (auto simp: has_def find_None_iff)

lemma remove_tracking_eq:
  "remove_tracking c a tr = filter (\<lambda>i. \<not> has c i (arg_items a)) tr"
  by (cases a) (simp_all add: has_iff)

lemma resolve_cases: "equal_cmp c (resolve c its x) x \<or> resolve c its x = x"
  by (auto simp: resolve_def getItemByPartial_def find_Some_iff split: option.splits)

lemma filter_resolved:
  assumes "\<forall>x \<in> set xs. equal_cmp c x x"
  shows "filter (\<lambda>i. \<not> has c i xs) (map (resolve c its) xs) = []"
proof -
  have "has c (resolve c its x) xs" if "x \<in> set xs" for x
  proof -
    from resolve_cases [of c its x] that assms have "equal_cmp c (resolve c its x) x"
      by auto
    with that show ?thesis unfolding has_iff by blast
  qed
  then show ?thesis by (simp add: filter_empty_conv)
qed

lemma pipe_tapResponse_after:
  assumes "\<And>v s. Q (fst (nx v s)) = Q s" and "\<And>e s. Q (fst (er e s)) = Q s"
  shows "\<exists>s1. after (pipe_tapResponse svc nx er fin out s) = fin s1 \<and> Q s1 = Q s"
proof (cases out)
  case (Emits v)
  obtain s1 t1 ex where nx: "nx v s = (s1, t1, ex)" by (cases "nx v s")
  with assms(1) [of v s] have q1: "Q s1 = Q s" by simp
  show ?thesis
  proof (cases ex)
    case None
    with Emits nx q1 show ?thesis by (auto simp: pipe_tapResponse_def)
  next
    case (Some e)
    obtain s2 t2 where er: "er e s1 = (s2, t2)" by (cases "er e s1")
    with assms(2) [of e s1] q1 have "Q s2 = Q s" by simp
    with Emits nx Some er q1 show ?thesis by (auto simp: pipe_tapResponse_def)
  qed
next
  case (Fails err)
  obtain s2 t2 where er: "er (ErrValue err) s = (s2, t2)" by (cases "er (ErrValue err) s")
  with assms(2) [of "ErrValue err" s] have "Q s2 = Q s" by simp
  with Fails er show ?thesis by (auto simp: pipe_tapResponse_def)
next
  case Completes
  obtain s2 t2 where er: "er EmptyError s = (s2, t2)" by (cases "er EmptyError s")
  with assms(2) [of EmptyError s] have "Q s2 = Q s" by simp
  with Completes er show ?thesis by (auto simp: pipe_tapResponse_def)
next
  case Unsubscribed
  then show ?thesis by (auto simp: pipe_tapResponse_def)
qed

lemma pipe_switchMap_after:
  assumes "\<And>v s. Q (fst (inner v s)) = Q s"
  shows "\<exists>s1. after (pipe_switchMap svc cb inner fin out s) = fin s1 \<and> Q s1 = Q s"
proof (cases out)
  case (Emits v)
  obtain s1 t1 ex d where i: "inner v s = (s1, t1, ex, d)" by (cases "inner v s")
  with assms [of v s] have "Q s1 = Q s" by simp
  with Emits i show ?thesis by (cases ex) (auto simp: pipe_switchMap_def)
qed (auto simp: pipe_switchMap_def)


lemma update_inner_updating: "updatingItems (fst (update_inner svc p v s)) = updatingItems s"
  by (simp add: update_inner_def refresh_call_def addToRefreshingItems_def
      split: option.splits upserted.splits prod.splits)

lemma updateMany_inner_updating: "updatingItems (fst (updateMany_inner svc p v s)) = updatingItems s"
  by (simp add: updateMany_inner_def refreshMany_call_def addToRefreshingItems_def
      split: option.splits upsertedMany.splits prod.splits)

lemma delete_inner_deleting: "deletingItems (fst (delete_inner svc p v s)) = deletingItems s"
  by (simp add: delete_inner_def read_call_def Let_def split: option.splits)

lemma deleteMany_inner_deleting: "deletingItems (fst (deleteMany_inner svc p v s)) = deletingItems s"
  by (simp add: deleteMany_inner_def read_call_def Let_def split: option.splits)

lemma refresh_next_refreshing: "refreshingItems (fst (refresh_next svc p v s)) = refreshingItems s"
  by (simp add: refresh_next_def split: option.splits upserted.splits prod.splits)

lemma refreshMany_next_refreshing:
  "refreshingItems (fst (refreshMany_next svc p v s)) = refreshingItems s"
  by (simp add: refreshMany_next_def Let_def
      split: option.splits upsertedMany.splits prod.splits fetched.splits)

lemma report_error_state: "fst (report_error svc cb ex s) = s"
  by (simp add: report_error_def)

lemma tracked_completed:
  "tracked (tracker_of opn) (completed svc opn s)
     = filter (\<lambda>i. \<not> has (comparator svc) i (own_items opn)) (tracked (tracker_of opn) s)"
proof (cases opn)
  case (Update p out)
  have "\<exists>s1. after (update_settled svc p out s) = removeFromUpdatingItems svc (One (item p)) s1
          \<and> updatingItems s1 = updatingItems s"
    unfolding update_settled_def
    by (rule pipe_switchMap_after [where Q = updatingItems]) (rule update_inner_updating)
  with Update show ?thesis
    by (auto simp: removeFromUpdatingItems_def remove_tracking_eq)
next
  case (UpdateMany p out)
  have "\<exists>s1. after (updateMany_settled svc p out s)
            = removeFromUpdatingItems svc (Many (ItemsParams.items p)) s1
          \<and> updatingItems s1 = updatingItems s"
    unfolding updateMany_settled_def
    by (rule pipe_switchMap_after [where Q = updatingItems]) (rule updateMany_inner_updating)
  with UpdateMany show ?thesis
    by (auto simp: removeFromUpdatingItems_def remove_tracking_eq)
next
  case (Delete p out)
  have "\<exists>s1. after (delete_settled svc p out s) = removeFromDeletingItems svc (One (item p)) s1
          \<and> deletingItems s1 = deletingItems s"
    unfolding delete_settled_def
    by (rule pipe_switchMap_after [where Q = deletingItems]) (rule delete_inner_deleting)
  with Delete show ?thesis
    by (auto simp: removeFromDeletingItems_def remove_tracking_eq)
next
  case (DeleteMany p out)
  have "\<exists>s1. after (deleteMany_settled svc p out s)
            = removeFromDeletingItems svc (Many (ItemsParams.items p)) s1
          \<and> deletingItems s1 = deletingItems s"
    unfolding deleteMany_settled_def
    by (rule pipe_switchMap_after [where Q = deletingItems]) (rule deleteMany_inner_deleting)
  with DeleteMany show ?thesis
    by (auto simp: removeFromDeletingItems_def remove_tracking_eq)
next
  case (Refresh p out)
  have "\<exists>s1. after (refresh_settled svc p out s) = removeFromRefreshingItems svc (One (item p)) s1
          \<and> refreshingItems s1 = refreshingItems s"
    unfolding refresh_settled_def
    by (rule pipe_tapResponse_after [where Q = refreshingItems])
       (simp_all add: refresh_next_refreshing report_error_state)
  with Refresh show ?thesis
    by (auto simp: removeFromRefreshingItems_def remove_tracking_eq)
next
  case (RefreshMany p out)
  have "\<exists>s1. after (refreshMany_settled svc p out s)
            = removeFromRefreshingItems svc (Many (ItemsParams.items p)) s1
          \<and> refreshingItems s1 = refreshingItems s"
    unfolding refreshMany_settled_def
    by (rule pipe_tapResponse_after [where Q = refreshingItems])
       (simp_all add: refreshMany_next_refreshing report_error_state)
  with RefreshMany show ?thesis
    by (auto simp: removeFromRefreshingItems_def remove_tracking_eq)
qed simp_all

lemma pipe_tapResponse_fin:
  "\<exists>s1. after (pipe_tapResponse svc nx er fin out s) = fin s1"
  using pipe_tapResponse_after [where Q = "\<lambda>s. ()" and nx = nx and er = er and svc = svc
      and fin = fin and out = out and s = s]
  by auto

lemma flag_completed:
  "(tracker_of opn = IsCreating \<longrightarrow> \<not> isCreating (completed svc opn s))
   \<and> (tracker_of opn = IsReading \<longrightarrow> \<not> isReading (completed svc opn s))"
proof (cases opn)
  case (Create p out)
  have "\<exists>s1. after (create_settled svc p out s) = s1\<lparr>isCreating := False\<rparr>"
    unfolding create_settled_def by (rule pipe_tapResponse_fin)
  with Create show ?thesis by auto
next
  case (CreateMany p out)
  have "\<exists>s1. after (createMany_settled svc p out s) = s1\<lparr>isCreating := False\<rparr>"
    unfolding createMany_settled_def by (rule pipe_tapResponse_fin)
  with CreateMany show ?thesis by auto
next
  case (Read p out)
  have "\<exists>s1. after (read_settled svc p out s) = s1\<lparr>isReading := False\<rparr>"
    unfolding read_settled_def by (rule pipe_tapResponse_fin)
  with Read show ?thesis by auto
next
  case (ReadOne p out)
  have "\<exists>s1. after (readOne_settled svc p out s) = s1\<lparr>isReading := False\<rparr>"
    unfolding readOne_settled_def by (rule pipe_tapResponse_fin)
  with ReadOne show ?thesis by auto
next
  case (ReadMany p out)
  have "\<exists>s1. after (readMany_settled svc p out s) = s1\<lparr>isReading := False\<rparr>"
    unfolding readMany_settled_def by (rule pipe_tapResponse_fin)
  with ReadMany show ?thesis by auto
qed simp_all

lemma tracked_called:
  "tracked (tracker_of opn) (called svc opn s) = tracked (tracker_of opn) s
   \<or> tracked (tracker_of opn) (called svc opn s)
       = tracked (tracker_of opn) s @ map (resolve (comparator svc) (items s)) (own_items opn)"
  by (cases opn)
     (simp_all add: update_call_def updateMany_call_def delete_call_def deleteMany_call_def
        refresh_call_def refreshMany_call_def addToUpdatingItems_def addToDeletingItems_def
        addToRefreshingItems_def)


text \<open>
  C3, as stated: after an operation completes, the size of its tracking set is what it
  was before the call. A tracking set is a set, not a count of operations. With an
  \<^verbatim>\<open>update\<close> of \<^verbatim>\<open>{id: 1}\<close> in flight, a second \<^verbatim>\<open>update\<close> of \<^verbatim>\<open>{id: 1}\<close> finds the entity
  tracked and adds nothing; when the second one fails, its \<^verbatim>\<open>finalize\<close> filters the entity
  out. \<open>updatingItems\<close> had one member before the second call and has none after it.
\<close>

theorem second_update_clears_first:
  "updatingItems (update_call (defaults by_id True)
       \<lparr>onSuccess = None, onError = None, item = \<lparr>ref = 1, ident = 1\<rparr>,
        UpdateParams.refreshRequest = False\<rparr>
       (initialState :: (entity, string, string) CollectionState))
     = [\<lparr>ref = 1, ident = 1\<rparr>]
   \<and> updatingItems (after (update_settled (defaults by_id True)
       \<lparr>onSuccess = None, onError = None, item = \<lparr>ref = 2, ident = 1\<rparr>,
        UpdateParams.refreshRequest = False\<rparr>
       (Fails JNull)
       (update_call (defaults by_id True)
          \<lparr>onSuccess = None, onError = None, item = \<lparr>ref = 2, ident = 1\<rparr>,
           UpdateParams.refreshRequest = False\<rparr>
          (update_call (defaults by_id True)
             \<lparr>onSuccess = None, onError = None, item = \<lparr>ref = 1, ident = 1\<rparr>,
              UpdateParams.refreshRequest = False\<rparr>
             (initialState :: (entity, string, string) CollectionState)))))
     = []"
  by (simp add: update_settled_def update_call_def addToUpdatingItems_def
      removeFromUpdatingItems_def initialState_def defaults_def by_id_def hasItemIn_def
      resolve_def getItemByPartial_def pipe_defs)

text \<open>
  C3, amended. For every operation and every outcome of its request, once the operation
  has completed its busy flag is false, or its tracking set has no member that the
  comparator equates with one of the operation's items. If, when the operation is
  called, no member of its tracking set is Comparator-equal to one of its items, every
  one of its items is Comparator-equal to itself, and nothing else touches the set before
  the request settles, then the set after completion is the set of before the call, and
  so is its size.
\<close>

theorem tracking_released:
  "(case tracker_of opn of
      IsCreating \<Rightarrow> \<not> isCreating (completed svc opn s)
    | IsReading \<Rightarrow> \<not> isReading (completed svc opn s)
    | k \<Rightarrow> \<forall>i \<in> set (tracked k (completed svc opn s)). \<not> has (comparator svc) i (own_items opn))
   \<and> ((\<forall>i \<in> set (tracked (tracker_of opn) pre). \<not> has (comparator svc) i (own_items opn))
        \<longrightarrow> (\<forall>x \<in> set (own_items opn). equal_cmp (comparator svc) x x)
        \<longrightarrow> tracked (tracker_of opn) (completed svc opn (called svc opn pre))
              = tracked (tracker_of opn) pre)"
proof (intro conjI impI)
  have "\<forall>i \<in> set (tracked (tracker_of opn) (completed svc opn s)).
          \<not> has (comparator svc) i (own_items opn)"
    by (simp add: tracked_completed)
  with flag_completed [of opn svc s]
  show "case tracker_of opn of
          IsCreating \<Rightarrow> \<not> isCreating (completed svc opn s)
        | IsReading \<Rightarrow> \<not> isReading (completed svc opn s)
        | k \<Rightarrow> \<forall>i \<in> set (tracked k (completed svc opn s)).
                 \<not> has (comparator svc) i (own_items opn)"
    by (cases "tracker_of opn") simp_all
next
  assume fresh: "\<forall>i \<in> set (tracked (tracker_of opn) pre). \<not> has (comparator svc) i (own_items opn)"
    and refl: "\<forall>x \<in> set (own_items opn). equal_cmp (comparator svc) x x"
  have keep: "filter (\<lambda>i. \<not> has (comparator svc) i (own_items opn)) (tracked (tracker_of opn) pre)
            = tracked (tracker_of opn) pre"
    using fresh by (simp add: filter_id_conv)
  from tracked_called [of opn svc pre]
  show "tracked (tracker_of opn) (completed svc opn (called svc opn pre)) = tracked (tracker_of opn) pre"
    by (auto simp: tracked_completed keep filter_resolved [OF refl])
qed

theorem tracking_released_witness:
  "tracked UpdatingItems
     (completed (defaults by_id True)
        (Update \<lparr>onSuccess = None, onError = None, item = \<lparr>ref = 2, ident = 1\<rparr>,
                 UpdateParams.refreshRequest = False\<rparr> (Fails JNull))
        (called (defaults by_id True)
           (Update \<lparr>onSuccess = None, onError = None, item = \<lparr>ref = 2, ident = 1\<rparr>,
                    UpdateParams.refreshRequest = False\<rparr> (Fails JNull))
           ((initialState :: (entity, string, string) CollectionState)
              \<lparr>updatingItems := [\<lparr>ref = 5, ident = 5\<rparr>]\<rparr>)))
     = [\<lparr>ref = 5, ident = 5\<rparr>]
   \<and> \<not> has by_id \<lparr>ref = 5, ident = 5\<rparr> [\<lparr>ref = 2, ident = 1\<rparr>]"
  using tracking_released
    [where opn = "Update \<lparr>onSuccess = None, onError = None, item = \<lparr>ref = 2, ident = 1\<rparr>,
                 UpdateParams.refreshRequest = False\<rparr> (Fails JNull)"
       and svc = "defaults by_id True"
       and pre = "(initialState :: (entity, string, string) CollectionState)
              \<lparr>updatingItems := [\<lparr>ref = 5, ident = 5\<rparr>]\<rparr>"
       and s = "called (defaults by_id True)
           (Update \<lparr>onSuccess = None, onError = None, item = \<lparr>ref = 2, ident = 1\<rparr>,
                    UpdateParams.refreshRequest = False\<rparr> (Fails JNull))
           ((initialState :: (entity, string, string) CollectionState)
              \<lparr>updatingItems := [\<lparr>ref = 5, ident = 5\<rparr>]\<rparr>)"]
  by (simp add: defaults_def by_id_def has_def)

section \<open>A null result\<close>

lemma filter_added_one:
  assumes fresh: "\<forall>i \<in> set tr. \<not> equal_cmp c i x"
    and refl: "equal_cmp c x x"
  shows "filter (\<lambda>i. \<not> equal_cmp c i x) (add_tracking c (One x) its tr) = tr"
proof -
  from fresh refl have "x \<notin> set tr" by auto
  with fresh have absent: "\<not> hasItemIn c x tr"
    by (simp add: hasItemIn_def list_ex_iff)
  from resolve_cases [of c its x] refl have "equal_cmp c (resolve c its x) x"
    by auto
  moreover from fresh have "filter (\<lambda>i. \<not> equal_cmp c i x) tr = tr"
    by (simp add: filter_id_conv)
  ultimately show ?thesis
    using absent by simp
qed

text \<open>
  C10, as stated: a null result clears only the busy flag or the tracking-set entry that
  the operation set at its start. The finalizer does not know which entry the operation
  set: it filters out every member that the comparator equates with the item. With a
  \<^verbatim>\<open>refresh\<close> of \<^verbatim>\<open>{id: 1}\<close> in flight, a second \<^verbatim>\<open>refresh\<close> of \<^verbatim>\<open>{id: 1}\<close> finds the entity
  tracked and sets no entry; when its request emits \<^verbatim>\<open>null\<close>, the entry of the first
  \<^verbatim>\<open>refresh\<close> is removed and \<open>refreshingItems\<close> is empty.
\<close>

theorem second_refresh_null_clears_first:
  "refreshingItems (refresh_call (defaults by_id True)
       \<lparr>onSuccess = None, onError = None, item = \<lparr>ref = 1, ident = 1\<rparr>\<rparr>
       (initialState :: (entity, string, string) CollectionState))
     = [\<lparr>ref = 1, ident = 1\<rparr>]
   \<and> refreshingItems (refresh_call (defaults by_id True)
       \<lparr>onSuccess = None, onError = None, item = \<lparr>ref = 2, ident = 1\<rparr>\<rparr>
       (refresh_call (defaults by_id True)
          \<lparr>onSuccess = None, onError = None, item = \<lparr>ref = 1, ident = 1\<rparr>\<rparr>
          (initialState :: (entity, string, string) CollectionState)))
     = [\<lparr>ref = 1, ident = 1\<rparr>]
   \<and> refreshingItems (after (refresh_settled (defaults by_id True)
       \<lparr>onSuccess = None, onError = None, item = \<lparr>ref = 2, ident = 1\<rparr>\<rparr>
       (Emits None)
       (refresh_call (defaults by_id True)
          \<lparr>onSuccess = None, onError = None, item = \<lparr>ref = 2, ident = 1\<rparr>\<rparr>
          (refresh_call (defaults by_id True)
             \<lparr>onSuccess = None, onError = None, item = \<lparr>ref = 1, ident = 1\<rparr>\<rparr>
             (initialState :: (entity, string, string) CollectionState)))))
     = []"
  by (simp add: refresh_settled_def refresh_next_def refresh_call_def addToRefreshingItems_def
      removeFromRefreshingItems_def initialState_def defaults_def by_id_def hasItemIn_def
      resolve_def getItemByPartial_def pipe_defs)

text \<open>
  C10, amended. When the request of \<^verbatim>\<open>create\<close>, \<^verbatim>\<open>readOne\<close>, \<^verbatim>\<open>refresh\<close> or \<^verbatim>\<open>update\<close> (the
  latter without a \<^verbatim>\<open>refreshRequest\<close>) emits \<^verbatim>\<open>null\<close>, no callback is invoked and nothing is
  emitted or reported: the trace is empty. The state after settling differs from the
  state before it in one field only: \<open>isCreating\<close> is false, \<open>isReading\<close> is false,
  \<open>refreshingItems\<close> has lost exactly its members that the comparator equates with the
  item, or \<open>updatingItems\<close> has; \<open>items\<close>, \<open>totalCountFetched\<close>, \<open>status\<close> and
  \<open>statuses\<close> are those of before. The members lost are the entry set at the start and
  the entries of other operations in flight on a Comparator-equal item. When the flag
  was false at the call, or no member of the set was Comparator-equal to the item at the
  call and the item is Comparator-equal to itself, and nothing else runs in between, the
  state after completion is the state before the call: only what the call set is
  cleared.
\<close>

theorem null_result_filters_tracking:
  "after (create_settled svc p (Emits None) s) = s\<lparr>isCreating := False\<rparr>
   \<and> trace (create_settled svc p (Emits None) s) = []
   \<and> after (readOne_settled svc p (Emits None) s) = s\<lparr>isReading := False\<rparr>
   \<and> trace (readOne_settled svc p (Emits None) s) = []
   \<and> after (refresh_settled svc r (Emits None) s)
       = s\<lparr>refreshingItems :=
             filter (\<lambda>i. \<not> equal_cmp (comparator svc) i (item r)) (refreshingItems s)\<rparr>
   \<and> trace (refresh_settled svc r (Emits None) s) = []
   \<and> after (update_settled svc (u\<lparr>UpdateParams.refreshRequest := False\<rparr>) (Emits None) s)
       = s\<lparr>updatingItems :=
             filter (\<lambda>i. \<not> equal_cmp (comparator svc) i (item u)) (updatingItems s)\<rparr>
   \<and> trace (update_settled svc (u\<lparr>UpdateParams.refreshRequest := False\<rparr>) (Emits None) s) = []
   \<and> (\<not> isCreating s \<longrightarrow> after (create_settled svc p (Emits None) (create_call s)) = s)
   \<and> (\<not> isReading s \<longrightarrow> after (readOne_settled svc p (Emits None) (readOne_call s)) = s)
   \<and> ((\<forall>i \<in> set (refreshingItems s). \<not> equal_cmp (comparator svc) i (item r))
        \<longrightarrow> equal_cmp (comparator svc) (item r) (item r)
        \<longrightarrow> after (refresh_settled svc r (Emits None) (refresh_call svc r s)) = s)
   \<and> ((\<forall>i \<in> set (updatingItems s). \<not> equal_cmp (comparator svc) i (item u))
        \<longrightarrow> equal_cmp (comparator svc) (item u) (item u)
        \<longrightarrow> after (update_settled svc (u\<lparr>UpdateParams.refreshRequest := False\<rparr>) (Emits None)
                     (update_call svc (u\<lparr>UpdateParams.refreshRequest := False\<rparr>) s)) = s)"
proof -
  have settled:
    "after (create_settled svc p (Emits None) s') = s'\<lparr>isCreating := False\<rparr>"
    "trace (create_settled svc p (Emits None) s') = []"
    "after (readOne_settled svc p (Emits None) s') = s'\<lparr>isReading := False\<rparr>"
    "trace (readOne_settled svc p (Emits None) s') = []"
    "after (refresh_settled svc r (Emits None) s')
       = s'\<lparr>refreshingItems :=
              filter (\<lambda>i. \<not> equal_cmp (comparator svc) i (item r)) (refreshingItems s')\<rparr>"
    "trace (refresh_settled svc r (Emits None) s') = []"
    "after (update_settled svc (u\<lparr>UpdateParams.refreshRequest := False\<rparr>) (Emits None) s')
       = s'\<lparr>updatingItems :=
              filter (\<lambda>i. \<not> equal_cmp (comparator svc) i (item u)) (updatingItems s')\<rparr>"
    "trace (update_settled svc (u\<lparr>UpdateParams.refreshRequest := False\<rparr>) (Emits None) s') = []"
    for s' :: "('a, 'b, 'c) CollectionState"
    by (simp_all add: create_settled_def create_next_def readOne_settled_def readOne_next_def
        refresh_settled_def refresh_next_def update_settled_def update_inner_def
        removeFromRefreshingItems_def removeFromUpdatingItems_def pipe_defs)
  have flags:
    "\<not> isCreating s \<longrightarrow> after (create_settled svc p (Emits None) (create_call s)) = s"
    "\<not> isReading s \<longrightarrow> after (readOne_settled svc p (Emits None) (readOne_call s)) = s"
    by (simp_all add: settled create_call_def readOne_call_def)
  have refreshing:
    "after (refresh_settled svc r (Emits None) (refresh_call svc r s)) = s"
    if "\<forall>i \<in> set (refreshingItems s). \<not> equal_cmp (comparator svc) i (item r)"
      and "equal_cmp (comparator svc) (item r) (item r)"
    using filter_added_one [OF that, of "items s"]
    by (simp add: settled refresh_call_def addToRefreshingItems_def)
  have updating:
    "after (update_settled svc (u\<lparr>UpdateParams.refreshRequest := False\<rparr>) (Emits None)
       (update_call svc (u\<lparr>UpdateParams.refreshRequest := False\<rparr>) s)) = s"
    if "\<forall>i \<in> set (updatingItems s). \<not> equal_cmp (comparator svc) i (item u)"
      and "equal_cmp (comparator svc) (item u) (item u)"
    using filter_added_one [OF that, of "items s"]
    by (simp add: settled update_call_def addToUpdatingItems_def)
  from settled [of s] flags refreshing updating show ?thesis
    by blast
qed

theorem null_result_witness:
  "after (refresh_settled (defaults by_id True)
       \<lparr>onSuccess = Some (Callback Returns), onError = Some (Callback Returns),
        item = \<lparr>ref = 2, ident = 1\<rparr>\<rparr>
       (Emits None)
       (refresh_call (defaults by_id True)
          \<lparr>onSuccess = Some (Callback Returns), onError = Some (Callback Returns),
           item = \<lparr>ref = 2, ident = 1\<rparr>\<rparr>
          ((initialState :: (entity, string, string) CollectionState)
             \<lparr>items := [\<lparr>ref = 1, ident = 1\<rparr>], totalCountFetched := Some 7,
              refreshingItems := [\<lparr>ref = 5, ident = 5\<rparr>]\<rparr>)))
     = (initialState :: (entity, string, string) CollectionState)
         \<lparr>items := [\<lparr>ref = 1, ident = 1\<rparr>], totalCountFetched := Some 7,
          refreshingItems := [\<lparr>ref = 5, ident = 5\<rparr>]\<rparr>
   \<and> refreshingItems (refresh_call (defaults by_id True)
          \<lparr>onSuccess = Some (Callback Returns), onError = Some (Callback Returns),
           item = \<lparr>ref = 2, ident = 1\<rparr>\<rparr>
          ((initialState :: (entity, string, string) CollectionState)
             \<lparr>items := [\<lparr>ref = 1, ident = 1\<rparr>], totalCountFetched := Some 7,
              refreshingItems := [\<lparr>ref = 5, ident = 5\<rparr>]\<rparr>))
     = [\<lparr>ref = 5, ident = 5\<rparr>, \<lparr>ref = 1, ident = 1\<rparr>]"
  using null_result_filters_tracking
    [where svc = "defaults by_id True"
       and r = "\<lparr>onSuccess = Some (Callback Returns), onError = Some (Callback Returns),
           item = \<lparr>ref = 2, ident = 1\<rparr>\<rparr>"
       and s = "(initialState :: (entity, string, string) CollectionState)
             \<lparr>items := [\<lparr>ref = 1, ident = 1\<rparr>], totalCountFetched := Some 7,
              refreshingItems := [\<lparr>ref = 5, ident = 5\<rparr>]\<rparr>"]
  by (simp add: defaults_def by_id_def initialState_def refresh_call_def addToRefreshingItems_def
      hasItemIn_def resolve_def getItemByPartial_def)

end
